theory Spec2Isabelle
  imports Complex_Main
begin

section \<open>Numbers and strings\<close>

text \<open>
  JavaScript numbers are modelled as real numbers: \<open>*\<close>, \<open>+\<close>, \<open>Math.cos\<close>, \<open>Math.sin\<close>
  and \<open>Math.PI\<close> are the exact operations, the rounding of IEEE doubles is not part of
  the model. Integers that the host hands over (window and layout sizes, the engine's
  counters) are \<open>int\<close> and \<open>nat\<close>; they stand for 32-bit values, which print as
  their decimal digits.
\<close>

definition digit :: "nat \<Rightarrow> char" where
  "digit d = char_of (48 + d)"

function show_nat :: "nat \<Rightarrow> string" where
  "show_nat n = (if n < 10 then [digit n] else show_nat (n div 10) @ [digit (n mod 10)])"
  by pat_completeness auto
termination
  by (relation "measure (\<lambda>n. n)") auto

declare show_nat.simps [simp del]

definition show_int :: "int \<Rightarrow> string" where
  "show_int i = (if i < 0 then CHR ''-'' # show_nat (nat (- i)) else show_nat (nat i))"

text \<open>
  \<open>Number::toString\<close>, as a template literal and \<open>+ "px"\<close> apply it: an integral number
  below \<open>10^21\<close> in magnitude prints as its decimal digits. How any other number prints
  (shortest round-trip digits, exponents) is left to the parameter \<open>fmt\<close>.
\<close>

definition Number_toString :: "(real \<Rightarrow> string) \<Rightarrow> real \<Rightarrow> string" where
  "Number_toString fmt r =
     (if r = of_int \<lfloor>r\<rfloor> \<and> \<bar>r\<bar> < 10 ^ 21 then show_int \<lfloor>r\<rfloor> else fmt r)"

text \<open>A template literal prints \<open>null\<close> as the word \<open>null\<close>.\<close>

definition template :: "(real \<Rightarrow> string) \<Rightarrow> real option \<Rightarrow> string" where
  "template fmt v = (case v of None \<Rightarrow> ''null'' | Some r \<Rightarrow> Number_toString fmt r)"

text \<open>\<open>text.replace(/\n/g, "<br>")\<close>: every line feed becomes \<open><br>\<close>.\<close>

fun replace_newlines :: "string \<Rightarrow> string" where
  "replace_newlines [] = []"
| "replace_newlines (c # cs) =
     (if c = CHR ''\<newline>'' then ''<br>'' @ replace_newlines cs else c # replace_newlines cs)"

section \<open>The engine, seen from the page\<close>

datatype error = TypeError | EngineError string

text \<open>
  A call runs on a state and either returns a value or throws; in both cases it leaves a
  state behind. \<open>Inl\<close> is the exception.
\<close>

type_synonym ('s, 'a) js = "'s \<Rightarrow> (error + 'a) \<times> 's"

definition js_return :: "'a \<Rightarrow> ('s, 'a) js" where
  "js_return a s = (Inr a, s)"

definition js_bind :: "('s, 'a) js \<Rightarrow> ('a \<Rightarrow> ('s, 'b) js) \<Rightarrow> ('s, 'b) js" where
  "js_bind m f s = (case m s of (Inl e, s') \<Rightarrow> (Inl e, s') | (Inr a, s') \<Rightarrow> f a s')"

record animal =
  animal_x :: real
  animal_y :: real
  animal_rotation :: real

record food_item =
  food_x :: real
  food_y :: real

record world =
  animals :: "animal list"
  food :: "food_item list"

record statistics =
  max_fitness :: real
  min_fitness :: real
  mean_fitness :: real
  std_fitness :: real

text \<open>
  \<open>lib_simulation_wasm\<close> is not part of the repository. A \<open>Simulation\<close> object is an
  opaque state \<open>'e\<close> with the five methods the scripts call; each may throw and each may
  change the state.
\<close>

record 'e simulation_api =
  step :: "('e, unit) js"
  world :: "('e, world) js"
  generation :: "('e, nat) js"
  generation_steps :: "('e, nat) js"
  prev_generation_statistics :: "('e, statistics option) js"

section \<open>The canvas\<close>

datatype path_op =
    MoveTo real real
  | LineTo real real
  | Arc real real real real real

datatype paint =
    Fill "path_op list" string
  | Stroke "path_op list"
  | ClearRect real real real real

text \<open>
  A 2d context: the current path (the operations since the last \<open>beginPath\<close>), the fill
  style, and what has been painted on the bitmap so far, oldest first. \<open>stroke\<close> is the
  host's other way of painting a path; the scripts never call it.
\<close>

record context2d =
  path :: "path_op list"
  fillStyle :: string
  surface :: "paint list"

definition beginPath :: "context2d \<Rightarrow> context2d" where
  "beginPath c = c\<lparr>path := []\<rparr>"

definition moveTo :: "real \<Rightarrow> real \<Rightarrow> context2d \<Rightarrow> context2d" where
  "moveTo px py c = c\<lparr>path := path c @ [MoveTo px py]\<rparr>"

definition lineTo :: "real \<Rightarrow> real \<Rightarrow> context2d \<Rightarrow> context2d" where
  "lineTo px py c = c\<lparr>path := path c @ [LineTo px py]\<rparr>"

definition arc :: "real \<Rightarrow> real \<Rightarrow> real \<Rightarrow> real \<Rightarrow> real \<Rightarrow> context2d \<Rightarrow> context2d" where
  "arc cx cy r a0 a1 c = c\<lparr>path := path c @ [Arc cx cy r a0 a1]\<rparr>"

definition set_fillStyle :: "string \<Rightarrow> context2d \<Rightarrow> context2d" where
  "set_fillStyle col c = c\<lparr>fillStyle := col\<rparr>"

definition fill :: "context2d \<Rightarrow> context2d" where
  "fill c = c\<lparr>surface := surface c @ [Fill (path c) (fillStyle c)]\<rparr>"

definition stroke :: "context2d \<Rightarrow> context2d" where
  "stroke c = c\<lparr>surface := surface c @ [Stroke (path c)]\<rparr>"

definition clearRect :: "real \<Rightarrow> real \<Rightarrow> real \<Rightarrow> real \<Rightarrow> context2d \<Rightarrow> context2d" where
  "clearRect rx ry rw rh c = c\<lparr>surface := surface c @ [ClearRect rx ry rw rh]\<rparr>"

text \<open>
  The canvas element: backing-store size, CSS size, and its one 2d context (what
  \<open>getContext("2d")\<close> returns, every time).
\<close>

record canvas =
  width :: real
  height :: real
  style_width :: string
  style_height :: string
  ctx2d :: context2d

text \<open>
  The host's side of an assignment to \<open>canvas.width\<close> or \<open>canvas.height\<close>. The attribute
  is an \<open>unsigned long\<close>: the number assigned loses its fraction (towards zero) and is
  taken modulo \<open>2^32\<close>; a result above \<open>2^31 - 1\<close> is replaced by the default of the
  attribute, 300 for the width and 150 for the height. Every such assignment also puts
  the context back into its initial state, with an empty path and an empty bitmap.
\<close>

definition to_unsigned_long :: "real \<Rightarrow> int" where
  "to_unsigned_long v = (if v < 0 then - \<lfloor>- v\<rfloor> else \<lfloor>v\<rfloor>) mod 2 ^ 32"

definition canvas_size :: "int \<Rightarrow> real \<Rightarrow> real" where
  "canvas_size dflt v =
     (let n = to_unsigned_long v in if n \<le> 2147483647 then of_int n else of_int dflt)"

definition initial_context :: context2d where
  "initial_context = \<lparr>path = [], fillStyle = ''#000000'', surface = []\<rparr>"

definition set_width :: "real \<Rightarrow> canvas \<Rightarrow> canvas" where
  "set_width v c = c\<lparr>width := canvas_size 300 v, ctx2d := initial_context\<rparr>"

definition set_height :: "real \<Rightarrow> canvas \<Rightarrow> canvas" where
  "set_height v c = c\<lparr>height := canvas_size 150 v, ctx2d := initial_context\<rparr>"

text \<open>
  The host's side of an assignment to \<open>style.width\<close> or \<open>style.height\<close>. The scripts
  assign a decimal integer followed by \<open>px\<close>; the host refuses a negative length, and the
  property keeps the value it had.
\<close>

definition css_refused :: "string \<Rightarrow> bool" where
  "css_refused str = (case str of [] \<Rightarrow> False | ch # _ \<Rightarrow> ch = CHR ''-'')"

definition set_style_width :: "string \<Rightarrow> canvas \<Rightarrow> canvas" where
  "set_style_width str c = (if css_refused str then c else c\<lparr>style_width := str\<rparr>)"

definition set_style_height :: "string \<Rightarrow> canvas \<Rightarrow> canvas" where
  "set_style_height str c = (if css_refused str then c else c\<lparr>style_height := str\<rparr>)"

record window =
  devicePixelRatio :: "real option"
  innerWidth :: int
  innerHeight :: int

text \<open>\<open>window.devicePixelRatio || 1\<close>: an undefined or zero ratio counts as 1.\<close>

definition pixel_ratio :: "window \<Rightarrow> real" where
  "pixel_ratio w = (case devicePixelRatio w of None \<Rightarrow> 1 | Some r \<Rightarrow> if r = 0 then 1 else r)"

section \<open>The page\<close>

text \<open>
  \<open>trace\<close> is the log of the calls a script makes, in the order it makes them: engine
  methods, the view's methods, \<open>clearRect\<close>, \<open>requestAnimationFrame\<close> and
  \<open>setControllerText\<close>. A call is logged when it is made, whether or not it throws.
\<close>

datatype event =
    Ev_reset
  | Ev_clearRect real real real real
  | Ev_step
  | Ev_prev_generation_statistics
  | Ev_world
  | Ev_generation
  | Ev_generation_steps
  | Ev_fillAnimal real real real
  | Ev_fillFood real real
  | Ev_requestAnimationFrame
  | Ev_setControllerText string

text \<open>\<open>this.ctxt\<close> is undefined until \<open>reset\<close> binds it to the context of \<open>this.el\<close>.\<close>

datatype ctxt_ref = Undefined | Context_of_el

text \<open>
  What both pages have: the engine object, the host window, the number of
  animation-frame callbacks requested and not yet run, and the trace.
\<close>

record 'e host =
  simulation :: 'e
  win :: window
  frames_requested :: nat
  trace :: "event list"

text \<open>
  The page of \<open>part_000\<close> adds its one \<open>SimulationView\<close> (\<open>el\<close> and \<open>ctxt\<close>) and the
  \<open>innerHTML\<close> of the \<open>controllerText\<close> element. The elements the scripts look up by id
  are taken to exist.
\<close>

record 'e page = "'e host" +
  el :: canvas
  ctxt :: ctxt_ref
  controllerText :: string

text \<open>
  The page of \<open>wasm_app/index.js\<close> adds the \<open>viewport\<close> canvas; its \<open>ctx\<close> is the
  context of that canvas, bound when the script loads. \<open>layout\<close> is the host's layout of
  the page, which is not part of the repository: the layout width and height of the
  canvas, as they follow from the canvas in its present state.
\<close>

record 'e wasm_page = "'e host" +
  viewport :: canvas
  layout :: "canvas \<Rightarrow> int \<times> int"

definition clientWidth :: "'e wasm_page \<Rightarrow> int" where
  "clientWidth s = fst (layout s (viewport s))"

definition clientHeight :: "'e wasm_page \<Rightarrow> int" where
  "clientHeight s = snd (layout s (viewport s))"

definition log :: "event \<Rightarrow> ('e, 'z) host_scheme \<Rightarrow> ('e, 'z) host_scheme" where
  "log ev s = s\<lparr>trace := trace s @ [ev]\<rparr>"

text \<open>A method of the engine object, called from the page.\<close>

definition engine :: "event \<Rightarrow> ('e, 'a) js \<Rightarrow> (('e, 'z) host_scheme, 'a) js" where
  "engine ev m s =
     (case m (simulation s) of (r, e') \<Rightarrow> (r, (log ev s)\<lparr>simulation := e'\<rparr>))"

definition requestAnimationFrame :: "(('e, 'z) host_scheme, unit) js" where
  "requestAnimationFrame s =
     (Inr (), (log Ev_requestAnimationFrame s)\<lparr>frames_requested := frames_requested s + 1\<rparr>)"

text \<open>A method call on \<open>this.ctxt\<close>: a TypeError while \<open>this.ctxt\<close> is undefined.\<close>

definition on_ctxt :: "(context2d \<Rightarrow> context2d) \<Rightarrow> ('e page, unit) js" where
  "on_ctxt f s =
     (case ctxt s of
        Undefined \<Rightarrow> (Inl TypeError, s)
      | Context_of_el \<Rightarrow> (Inr (), s\<lparr>el := (el s)\<lparr>ctx2d := f (ctx2d (el s))\<rparr>\<rparr>))"

subsection \<open>\<open>SimulationView\<close> (\<open>part_001\<close>)\<close>

definition reset :: "('e page, unit) js" where
  "reset s0 =
     (let s = log Ev_reset s0;
          pixelRatio = pixel_ratio (win s);
          size = min (innerWidth (win s) - 500) (innerHeight (win s) - 50);
          s = s\<lparr>el := set_width (of_int size * pixelRatio) (el s)\<rparr>;
          s = s\<lparr>el := set_height (of_int size * pixelRatio) (el s)\<rparr>;
          s = s\<lparr>el := set_style_width (show_int size @ ''px'') (el s)\<rparr>;
          s = s\<lparr>el := set_style_height (show_int size @ ''px'') (el s)\<rparr>;
          s = s\<lparr>ctxt := Context_of_el\<rparr>;
          s = log (Ev_clearRect 0 0 (width (el s)) (width (el s))) s
      in on_ctxt (clearRect 0 0 (width (el s)) (width (el s))) s)"

definition fillAnimal :: "real \<Rightarrow> real \<Rightarrow> real \<Rightarrow> ('e page, unit) js" where
  "fillAnimal x y rotation s0 =
     (let s = log (Ev_fillAnimal x y rotation) s0;
          ANIMAL_SIZE = 0.01;
          ANIMAL_COLOR = ''#758b9e'';
          size = ANIMAL_SIZE * width (el s);
          headAngle = rotation;
          leg1Angle = rotation + (14 * pi) / 18;
          leg2Angle = rotation - (14 * pi) / 18
      in js_bind (on_ctxt beginPath) (\<lambda>_.
         js_bind (on_ctxt (moveTo (x + cos headAngle * size) (y + sin headAngle * size))) (\<lambda>_.
         js_bind (on_ctxt (lineTo (x + cos leg1Angle * size) (y + sin leg1Angle * size))) (\<lambda>_.
         js_bind (on_ctxt (lineTo (x + cos leg2Angle * size) (y + sin leg2Angle * size))) (\<lambda>_.
         js_bind (on_ctxt (moveTo (x + cos headAngle * size) (y + sin headAngle * size))) (\<lambda>_.
         js_bind (on_ctxt (set_fillStyle ANIMAL_COLOR)) (\<lambda>_.
         on_ctxt fill)))))) s)"

fun drawAnimals :: "animal list \<Rightarrow> ('e page, unit) js" where
  "drawAnimals [] = js_return ()"
| "drawAnimals (a # as) =
     (\<lambda>s. js_bind
        (fillAnimal (animal_x a * width (el s)) (animal_y a * height (el s)) (animal_rotation a))
        (\<lambda>_. drawAnimals as) s)"

definition fillFood :: "real \<Rightarrow> real \<Rightarrow> ('e page, unit) js" where
  "fillFood x y s0 =
     (let s = log (Ev_fillFood x y) s0;
          FOOD_SIZE = 0.003;
          FOOD_COLOR = ''#b4a794'';
          size = FOOD_SIZE * width (el s)
      in js_bind (on_ctxt beginPath) (\<lambda>_.
         js_bind (on_ctxt (arc x y size 0 (2 * pi))) (\<lambda>_.
         js_bind (on_ctxt (set_fillStyle FOOD_COLOR)) (\<lambda>_.
         on_ctxt fill))) s)"

fun drawFood :: "food_item list \<Rightarrow> ('e page, unit) js" where
  "drawFood [] = js_return ()"
| "drawFood (f # fs) =
     (\<lambda>s. js_bind
        (fillFood (food_x f * width (el s)) (food_y f * height (el s)))
        (\<lambda>_. drawFood fs) s)"

subsection \<open>The frame cycle (\<open>part_000\<close>)\<close>

definition setControllerText :: "string \<Rightarrow> ('e page, unit) js" where
  "setControllerText text s0 =
     (let s = log (Ev_setControllerText text) s0;
          formattedText = replace_newlines text
      in (Inr (), s\<lparr>controllerText := formattedText\<rparr>))"

text \<open>\<open>for (let i = 0; i < 1; i++) simulation.step();\<close>\<close>

function step_loop :: "'e simulation_api \<Rightarrow> nat \<Rightarrow> ('e page, unit) js" where
  "step_loop sim i =
     (if i < 1 then js_bind (engine Ev_step (step sim)) (\<lambda>_. step_loop sim (i + 1))
      else js_return ())"
  by pat_completeness auto
termination
  by (relation "measure (\<lambda>(sim, i). 1 - i)") auto

declare step_loop.simps [simp del]

definition redraw :: "'e simulation_api \<Rightarrow> (real \<Rightarrow> string) \<Rightarrow> ('e page, unit) js" where
  "redraw sim fmt =
     js_bind reset (\<lambda>_.
     js_bind (step_loop sim 0) (\<lambda>_.
     js_bind (engine Ev_prev_generation_statistics (prev_generation_statistics sim)) (\<lambda>stats.
     let max_f = (case stats of None \<Rightarrow> None | Some st \<Rightarrow> Some (max_fitness st));
         min_f = (case stats of None \<Rightarrow> None | Some st \<Rightarrow> Some (min_fitness st));
         mean_f = (case stats of None \<Rightarrow> None | Some st \<Rightarrow> Some (mean_fitness st));
         std_f = (case stats of None \<Rightarrow> None | Some st \<Rightarrow> Some (std_fitness st))
     in
     js_bind (engine Ev_world (world sim)) (\<lambda>w.
     js_bind (drawAnimals (animals w)) (\<lambda>_.
     js_bind (engine Ev_world (world sim)) (\<lambda>w.
     js_bind (drawFood (food w)) (\<lambda>_.
     js_bind requestAnimationFrame (\<lambda>_.
     js_bind (engine Ev_generation (generation sim)) (\<lambda>g.
     let text = ''Generation: '' @ show_nat g @ ''\<newline>'' in
     js_bind (engine Ev_generation_steps (generation_steps sim)) (\<lambda>gs.
     let text = text @ ''Generation steps: '' @ show_nat gs @ ''\<newline>\<newline>'';
         text = text @ ''Prev generation stats:\<newline>'';
         text = text @ ''Max fitness: '' @ template fmt max_f @ ''\<newline>'';
         text = text @ ''Min fitness: '' @ template fmt min_f @ ''\<newline>'';
         text = text @ ''Mean fitness: '' @ template fmt mean_f @ ''\<newline>'';
         text = text @ ''Std fitness: '' @ template fmt std_f @ ''\<newline>''
     in setControllerText text))))))))))"

subsection \<open>\<open>wasm_app/index.js\<close>\<close>

text \<open>
  Lines 8 to 12, run once when the script loads. Every read of \<open>clientWidth\<close> and
  \<open>clientHeight\<close> asks the layout about the canvas as it is at that line.
\<close>

definition size_viewport :: "'e wasm_page \<Rightarrow> 'e wasm_page" where
  "size_viewport s0 =
     (let viewportScale = pixel_ratio (win s0);
          s = s0\<lparr>viewport := set_width (of_int (clientWidth s0) * viewportScale) (viewport s0)\<rparr>;
          s = s\<lparr>viewport := set_height (of_int (clientHeight s) * viewportScale) (viewport s)\<rparr>;
          s = s\<lparr>viewport := set_style_width (show_int (clientWidth s) @ ''px'') (viewport s)\<rparr>;
          s = s\<lparr>viewport := set_style_height (show_int (clientHeight s) @ ''px'') (viewport s)\<rparr>
      in s)"

definition ANIMAL_SIZE :: real where
  "ANIMAL_SIZE = 0.015"

definition FOOD_SIZE :: real where
  "FOOD_SIZE = 0.005"

definition ANIMAL_COLOR :: string where
  "ANIMAL_COLOR = ''gray''"

definition FOOD_COLOR :: string where
  "FOOD_COLOR = ''green''"

text \<open>A method call on \<open>ctx\<close>.\<close>

definition on_ctx :: "(context2d \<Rightarrow> context2d) \<Rightarrow> 'e wasm_page \<Rightarrow> 'e wasm_page" where
  "on_ctx f s = s\<lparr>viewport := (viewport s)\<lparr>ctx2d := f (ctx2d (viewport s))\<rparr>\<rparr>"

definition wasm_fillAnimal :: "real \<Rightarrow> real \<Rightarrow> real \<Rightarrow> ('e wasm_page, unit) js" where
  "wasm_fillAnimal x y rotation s0 =
     (let s = log (Ev_fillAnimal x y rotation) s0;
          size = ANIMAL_SIZE * width (viewport s);
          headAngle = rotation;
          leg1Angle = rotation + (14 * pi) / 18;
          leg2Angle = rotation - (14 * pi) / 18;
          s = on_ctx beginPath s;
          s = on_ctx (moveTo (x + cos headAngle * size) (y + sin headAngle * size)) s;
          s = on_ctx (lineTo (x + cos leg1Angle * size) (y + sin leg1Angle * size)) s;
          s = on_ctx (lineTo (x + cos leg2Angle * size) (y + sin leg2Angle * size)) s;
          s = on_ctx (moveTo (x + cos headAngle * size) (y + sin headAngle * size)) s;
          s = on_ctx (set_fillStyle ANIMAL_COLOR) s;
          s = on_ctx fill s
      in (Inr (), s))"

definition wasm_fillFood :: "real \<Rightarrow> real \<Rightarrow> ('e wasm_page, unit) js" where
  "wasm_fillFood x y s0 =
     (let s = log (Ev_fillFood x y) s0;
          size = FOOD_SIZE * width (viewport s);
          s = on_ctx beginPath s;
          s = on_ctx (arc x y size 0 (2 * pi)) s;
          s = on_ctx (set_fillStyle FOOD_COLOR) s;
          s = on_ctx fill s
      in (Inr (), s))"

text \<open>The body of \<open>for (const animal of simulation.world().animals)\<close>, over the array.\<close>

fun each_animal :: "animal list \<Rightarrow> ('e wasm_page, unit) js" where
  "each_animal [] = js_return ()"
| "each_animal (a # as) =
     (\<lambda>s. js_bind
        (wasm_fillAnimal (animal_x a * width (viewport s)) (animal_y a * height (viewport s))
           (animal_rotation a))
        (\<lambda>_. each_animal as) s)"

definition draw_animals :: "'e simulation_api \<Rightarrow> ('e wasm_page, unit) js" where
  "draw_animals sim = js_bind (engine Ev_world (world sim)) (\<lambda>w. each_animal (animals w))"

text \<open>The body of \<open>for (const food of simulation.world().food)\<close>, over the array.\<close>

fun each_food :: "food_item list \<Rightarrow> ('e wasm_page, unit) js" where
  "each_food [] = js_return ()"
| "each_food (f # fs) =
     (\<lambda>s. js_bind
        (wasm_fillFood (food_x f * width (viewport s)) (food_y f * height (viewport s)))
        (\<lambda>_. each_food fs) s)"

definition draw_food :: "'e simulation_api \<Rightarrow> ('e wasm_page, unit) js" where
  "draw_food sim = js_bind (engine Ev_world (world sim)) (\<lambda>w. each_food (food w))"

definition wasm_clearRect :: "real \<Rightarrow> real \<Rightarrow> real \<Rightarrow> real \<Rightarrow> ('e wasm_page, unit) js" where
  "wasm_clearRect rx ry rw rh s =
     (Inr (), on_ctx (clearRect rx ry rw rh) (log (Ev_clearRect rx ry rw rh) s))"

definition wasm_redraw :: "'e simulation_api \<Rightarrow> ('e wasm_page, unit) js" where
  "wasm_redraw sim =
     (\<lambda>s. js_bind (wasm_clearRect 0 0 (width (viewport s)) (height (viewport s))) (\<lambda>_.
          js_bind (engine Ev_step (step sim)) (\<lambda>_.
          js_bind (draw_animals sim) (\<lambda>_.
          js_bind (draw_food sim) (\<lambda>_.
          requestAnimationFrame)))) s)"

text \<open>The script from top to bottom: size the canvas, draw, start the loop (lines 67 to 69).\<close>

definition wasm_main :: "'e simulation_api \<Rightarrow> ('e wasm_page, unit) js" where
  "wasm_main sim =
     (\<lambda>s. js_bind (draw_animals sim) (\<lambda>_.
          js_bind (draw_food sim) (\<lambda>_.
          wasm_redraw sim)) (size_viewport s))"

section \<open>Vocabulary of the properties\<close>

text \<open>
  The definitions from here on are not part of the scripts: they name what the
  properties talk about (the path of an agent, the event and the paint of one draw call,
  the events of one cycle, the state in the middle of a cycle).
\<close>

text \<open>The path of an agent of radius \<open>sz\<close> at \<open>(x, y)\<close>, turned by \<open>r\<close>.\<close>

definition animal_path :: "real \<Rightarrow> real \<Rightarrow> real \<Rightarrow> real \<Rightarrow> path_op list" where
  "animal_path sz x y r =
     [MoveTo (x + cos r * sz) (y + sin r * sz),
      LineTo (x + cos (r + 7 * pi / 9) * sz) (y + sin (r + 7 * pi / 9) * sz),
      LineTo (x + cos (r - 7 * pi / 9) * sz) (y + sin (r - 7 * pi / 9) * sz),
      MoveTo (x + cos r * sz) (y + sin r * sz)]"

text \<open>The draw call and the paint of one entity on a canvas of width \<open>w\<close> and height \<open>h\<close>.\<close>

definition animal_event :: "real \<Rightarrow> real \<Rightarrow> animal \<Rightarrow> event" where
  "animal_event w h a = Ev_fillAnimal (animal_x a * w) (animal_y a * h) (animal_rotation a)"

definition food_event :: "real \<Rightarrow> real \<Rightarrow> food_item \<Rightarrow> event" where
  "food_event w h f = Ev_fillFood (food_x f * w) (food_y f * h)"

definition animal_paint :: "real \<Rightarrow> string \<Rightarrow> real \<Rightarrow> real \<Rightarrow> animal \<Rightarrow> paint" where
  "animal_paint ratio col w h a =
     Fill (animal_path (ratio * w) (animal_x a * w) (animal_y a * h) (animal_rotation a)) col"

definition food_paint :: "real \<Rightarrow> string \<Rightarrow> real \<Rightarrow> real \<Rightarrow> food_item \<Rightarrow> paint" where
  "food_paint ratio col w h f = Fill [Arc (food_x f * w) (food_y f * h) (ratio * w) 0 (2 * pi)] col"

text \<open>
  The logical size \<open>reset\<close> computes, the backing-store width and height the canvas has
  after it, and the CSS size after the assignment of \<open>sz\<close> pixels to a property that
  held \<open>old\<close>.
\<close>

definition logical_size :: "window \<Rightarrow> int" where
  "logical_size w = min (innerWidth w - 500) (innerHeight w - 50)"

definition view_width :: "window \<Rightarrow> real" where
  "view_width w = canvas_size 300 (of_int (logical_size w) * pixel_ratio w)"

definition view_height :: "window \<Rightarrow> real" where
  "view_height w = canvas_size 150 (of_int (logical_size w) * pixel_ratio w)"

definition css_px :: "int \<Rightarrow> string \<Rightarrow> string" where
  "css_px sz old = (if css_refused (show_int sz @ ''px'') then old else show_int sz @ ''px'')"

text \<open>The calls logged between two states.\<close>

definition new_events :: "('e, 'z) host_scheme \<Rightarrow> ('e, 'z) host_scheme \<Rightarrow> event list" where
  "new_events s s' = drop (length (trace s)) (trace s')"

text \<open>
  The page in the middle of a cycle that started in \<open>s\<close>: \<open>reset\<close> has sized the canvas
  and bound \<open>ctxt\<close>, the engine is in state \<open>e\<close>, \<open>n\<close> frames have been requested, the
  calls \<open>evs\<close> have been made and the context of the canvas is \<open>c\<close>.
\<close>

definition mid_cycle :: "'e page \<Rightarrow> 'e \<Rightarrow> nat \<Rightarrow> event list \<Rightarrow> context2d \<Rightarrow> 'e page" where
  "mid_cycle s e n evs c =
     s\<lparr>simulation := e, frames_requested := frames_requested s + n, trace := trace s @ evs,
       ctxt := Context_of_el,
       el := (el s)\<lparr>width := view_width (win s), height := view_height (win s),
              style_width := css_px (logical_size (win s)) (style_width (el s)),
              style_height := css_px (logical_size (win s)) (style_height (el s)),
              ctx2d := c\<rparr>\<rparr>"

text \<open>The text \<open>redraw\<close> hands to \<open>setControllerText\<close>.\<close>

definition stats_text :: "(real \<Rightarrow> string) \<Rightarrow> nat \<Rightarrow> nat \<Rightarrow> statistics option \<Rightarrow> string" where
  "stats_text fmt g gs stats =
     ''Generation: '' @ show_nat g @ ''\<newline>'' @
     ''Generation steps: '' @ show_nat gs @ ''\<newline>\<newline>'' @
     ''Prev generation stats:\<newline>'' @
     ''Max fitness: '' @ template fmt (map_option max_fitness stats) @ ''\<newline>'' @
     ''Min fitness: '' @ template fmt (map_option min_fitness stats) @ ''\<newline>'' @
     ''Mean fitness: '' @ template fmt (map_option mean_fitness stats) @ ''\<newline>'' @
     ''Std fitness: '' @ template fmt (map_option std_fitness stats) @ ''\<newline>''"

text \<open>The page of \<open>wasm_app\<close> after some calls; the canvas keeps the size it has in \<open>s\<close>.\<close>

definition wasm_mid :: "'e wasm_page \<Rightarrow> 'e \<Rightarrow> nat \<Rightarrow> event list \<Rightarrow> context2d \<Rightarrow> 'e wasm_page" where
  "wasm_mid s e n evs c =
     s\<lparr>simulation := e, frames_requested := frames_requested s + n, trace := trace s @ evs,
       viewport := (viewport s)\<lparr>ctx2d := c\<rparr>\<rparr>"

subsection \<open>Paths and what filling them paints\<close>

text \<open>The corner points of a path: where \<open>moveTo\<close> and \<open>lineTo\<close> put the pen.\<close>

fun vertices :: "path_op list \<Rightarrow> (real \<times> real) list" where
  "vertices [] = []"
| "vertices (MoveTo px py # ops) = (px, py) # vertices ops"
| "vertices (LineTo px py # ops) = (px, py) # vertices ops"
| "vertices (Arc cx cy r a0 a1 # ops) = vertices ops"

text \<open>
  How the host fills a path. A \<open>moveTo\<close> starts a new subpath; any other operation
  extends the last subpath (and starts one if there is none). Filling closes every
  subpath with a straight line back to its first point, and a subpath that is a single
  point paints nothing.
\<close>

definition add_op :: "path_op list list \<Rightarrow> path_op \<Rightarrow> path_op list list" where
  "add_op sps p =
     (case p of
        MoveTo px py \<Rightarrow> sps @ [[p]]
      | _ \<Rightarrow> (case sps of [] \<Rightarrow> [[p]] | _ \<Rightarrow> butlast sps @ [last sps @ [p]]))"

definition subpaths :: "path_op list \<Rightarrow> path_op list list" where
  "subpaths ops = foldl add_op [] ops"

fun start_point :: "path_op \<Rightarrow> real \<times> real" where
  "start_point (MoveTo px py) = (px, py)"
| "start_point (LineTo px py) = (px, py)"
| "start_point (Arc cx cy r a0 a1) = (cx + r * cos a0, cy + r * sin a0)"

fun single_point :: "path_op list \<Rightarrow> bool" where
  "single_point [] = True"
| "single_point [MoveTo px py] = True"
| "single_point [LineTo px py] = True"
| "single_point ops = False"

fun closed :: "path_op list \<Rightarrow> path_op list" where
  "closed [] = []"
| "closed (p # ops) = (case start_point p of (px, py) \<Rightarrow> p # ops @ [LineTo px py])"

definition fill_outlines :: "path_op list \<Rightarrow> path_op list list" where
  "fill_outlines ops = map closed (filter (\<lambda>sp. \<not> single_point sp) (subpaths ops))"

fun is_Fill :: "paint \<Rightarrow> bool" where
  "is_Fill (Fill p c) = True"
| "is_Fill (Stroke p) = False"
| "is_Fill (ClearRect rx ry rw rh) = False"

subsection \<open>Kinds of events and their order\<close>

fun is_step :: "event \<Rightarrow> bool" where
  "is_step Ev_step = True"
| "is_step e = False"

fun is_fillAnimal :: "event \<Rightarrow> bool" where
  "is_fillAnimal (Ev_fillAnimal x y r) = True"
| "is_fillAnimal e = False"

fun is_fillFood :: "event \<Rightarrow> bool" where
  "is_fillFood (Ev_fillFood x y) = True"
| "is_fillFood e = False"

fun is_requestAnimationFrame :: "event \<Rightarrow> bool" where
  "is_requestAnimationFrame Ev_requestAnimationFrame = True"
| "is_requestAnimationFrame e = False"

fun is_setControllerText :: "event \<Rightarrow> bool" where
  "is_setControllerText (Ev_setControllerText t) = True"
| "is_setControllerText e = False"

text \<open>\<open>precedes P Q evs\<close>: no event of kind \<open>P\<close> comes after an event of kind \<open>Q\<close>.\<close>

fun precedes :: "(event \<Rightarrow> bool) \<Rightarrow> (event \<Rightarrow> bool) \<Rightarrow> event list \<Rightarrow> bool" where
  "precedes P Q [] = True"
| "precedes P Q (e # es) = (\<not> (Q e \<and> list_ex P es) \<and> precedes P Q es)"

subsection \<open>Fixtures\<close>

text \<open>
  A stub engine and two pages, for running the scripts on concrete inputs. The state of
  the stub engine is the number of steps taken; its world has an agent inside the unit
  square, one outside it, and one food item outside it. The style sheet of the second
  page lays its canvas out at 400 by 300.
\<close>

definition stub_world :: world where
  "stub_world =
     \<lparr>animals = [\<lparr>animal_x = 0.5, animal_y = 0.25, animal_rotation = 0\<rparr>,
                \<lparr>animal_x = 1.5, animal_y = - 0.25, animal_rotation = pi\<rparr>],
      food = [\<lparr>food_x = 0.75, food_y = 2\<rparr>]\<rparr>"

definition stub :: "nat simulation_api" where
  "stub =
     \<lparr>step = (\<lambda>n. (Inr (), Suc n)),
      world = (\<lambda>n. (Inr stub_world, n)),
      generation = (\<lambda>n. (Inr 3, n)),
      generation_steps = (\<lambda>n. (Inr 40, n)),
      prev_generation_statistics = (\<lambda>n. (Inr (Some
         \<lparr>max_fitness = 1, min_fitness = 0.2, mean_fitness = 0.5, std_fitness = 0.1\<rparr>), n))\<rparr>"

definition canvas0 :: canvas where
  "canvas0 =
     \<lparr>width = 300, height = 150, style_width = [], style_height = [],
      ctx2d = \<lparr>path = [], fillStyle = ''#000000'', surface = []\<rparr>\<rparr>"

definition window0 :: window where
  "window0 = \<lparr>devicePixelRatio = Some 2, innerWidth = 900, innerHeight = 450\<rparr>"

definition page0 :: "nat page" where
  "page0 =
     \<lparr>simulation = 0, win = window0, frames_requested = 0, trace = [],
      el = canvas0, ctxt = Undefined, controllerText = []\<rparr>"

definition wasm_page0 :: "nat wasm_page" where
  "wasm_page0 =
     \<lparr>simulation = 0, win = window0, frames_requested = 0, trace = [], viewport = canvas0,
      layout = (\<lambda>c. (400, 300))\<rparr>"

text \<open>How the fixtures print the fractions they use.\<close>

definition short_decimal :: "real \<Rightarrow> string" where
  "short_decimal r =
     (if r = 0.2 then ''0.2'' else if r = 0.5 then ''0.5'' else if r = 0.1 then ''0.1'' else ''?'')"

definition stub_generation_throws :: "nat simulation_api" where
  "stub_generation_throws = stub\<lparr>generation := (\<lambda>n. (Inl (EngineError ''generation''), n))\<rparr>"

definition stub_no_statistics :: "nat simulation_api" where
  "stub_no_statistics = stub\<lparr>prev_generation_statistics := (\<lambda>n. (Inr None, n))\<rparr>"

definition stub_step_throws :: "nat simulation_api" where
  "stub_step_throws = stub\<lparr>step := (\<lambda>n. (Inl (EngineError ''step''), n))\<rparr>"

definition window_fraction :: window where
  "window_fraction = \<lparr>devicePixelRatio = Some 1.5, innerWidth = 901, innerHeight = 1000\<rparr>"





definition wasm_page_fraction :: "nat wasm_page" where
  "wasm_page_fraction = wasm_page0\<lparr>win := window_fraction, layout := (\<lambda>c. (401, 301))\<rparr>"

definition stub_statistics_throws :: "nat simulation_api" where
  "stub_statistics_throws =
     stub\<lparr>prev_generation_statistics := (\<lambda>n. (Inl (EngineError ''statistics''), n))\<rparr>"

definition stub_world_throws :: "nat simulation_api" where
  "stub_world_throws = stub\<lparr>world := (\<lambda>n. (Inl (EngineError ''world''), n))\<rparr>"

text \<open>An engine whose \<open>world\<close> counts its calls in the state and throws from the second on.\<close>

definition stub_second_world_throws :: "nat simulation_api" where
  "stub_second_world_throws =
     stub\<lparr>world := (\<lambda>n. if n < 2 then (Inr stub_world, Suc n)
                           else (Inl (EngineError ''world''), n))\<rparr>"

definition stub_generation_steps_throws :: "nat simulation_api" where
  "stub_generation_steps_throws =
     stub\<lparr>generation_steps := (\<lambda>n. (Inl (EngineError ''generation_steps''), n))\<rparr>"

section \<open>How the calls run\<close>

subsection \<open>The view's methods, once \<open>ctxt\<close> is bound\<close>

lemma fillAnimal_defined:
  assumes "ctxt s = Context_of_el"
  shows "fillAnimal x y r s =
     (Inr (), s\<lparr>trace := trace s @ [Ev_fillAnimal x y r],
               el := (el s)\<lparr>ctx2d := (ctx2d (el s))\<lparr>
                  path := animal_path (0.01 * width (el s)) x y r,
                  fillStyle := ''#758b9e'',
                  surface := surface (ctx2d (el s)) @ [Fill (animal_path (0.01 * width (el s)) x y r) ''#758b9e'']\<rparr>\<rparr>\<rparr>)"
  using assms
  by (simp add: fillAnimal_def Let_def js_bind_def on_ctxt_def log_def beginPath_def moveTo_def lineTo_def set_fillStyle_def fill_def animal_path_def)

lemma fillFood_defined:
  assumes "ctxt s = Context_of_el"
  shows "fillFood x y s =
     (Inr (), s\<lparr>trace := trace s @ [Ev_fillFood x y],
               el := (el s)\<lparr>ctx2d := (ctx2d (el s))\<lparr>
                  path := [Arc x y (0.003 * width (el s)) 0 (2 * pi)],
                  fillStyle := ''#b4a794'',
                  surface := surface (ctx2d (el s)) @ [Fill [Arc x y (0.003 * width (el s)) 0 (2 * pi)] ''#b4a794'']\<rparr>\<rparr>\<rparr>)"
  using assms
  by (simp add: fillFood_def Let_def js_bind_def on_ctxt_def log_def beginPath_def arc_def set_fillStyle_def fill_def)

lemma drawAnimals_defined:
  assumes "ctxt s = Context_of_el"
  shows "\<exists>c. drawAnimals as s =
           (Inr (), s\<lparr>trace := trace s @ map (animal_event (width (el s)) (height (el s))) as,
                     el := (el s)\<lparr>ctx2d := c\<rparr>\<rparr>)
         \<and> surface c = surface (ctx2d (el s)) @
              map (animal_paint 0.01 ''#758b9e'' (width (el s)) (height (el s))) as"
  using assms
proof (induction as arbitrary: s)
  case Nil
  show ?case by (rule exI [of _ "ctx2d (el s)"]) (simp add: js_return_def)
next
  case (Cons a as)
  let ?x = "animal_x a * width (el s)" and ?y = "animal_y a * height (el s)" and ?r = "animal_rotation a"
  define s1 where "s1 = snd (fillAnimal ?x ?y ?r s)"
  note fa = fillAnimal_defined [OF Cons.prems, of ?x ?y ?r]
  have s1: "fillAnimal ?x ?y ?r s = (Inr (), s1)"
    by (simp add: s1_def fa)
  have tr: "trace s1 = trace s @ [animal_event (width (el s)) (height (el s)) a]"
    and c1: "ctxt s1 = Context_of_el"
    and w1: "width (el s1) = width (el s)" and h1: "height (el s1) = height (el s)"
    and su: "surface (ctx2d (el s1)) = surface (ctx2d (el s)) @ [animal_paint 0.01 ''#758b9e'' (width (el s)) (height (el s)) a]"
    by (simp_all add: s1_def fa Cons.prems animal_event_def animal_paint_def)
  have eq: "s1\<lparr>trace := t, el := (el s1)\<lparr>ctx2d := c\<rparr>\<rparr> = s\<lparr>trace := t, el := (el s)\<lparr>ctx2d := c\<rparr>\<rparr>" for t c
    by (simp add: s1_def fa)
  from Cons.IH [OF c1] obtain c where
    "drawAnimals as s1 = (Inr (), s1\<lparr>trace := trace s1 @ map (animal_event (width (el s1)) (height (el s1))) as,
                     el := (el s1)\<lparr>ctx2d := c\<rparr>\<rparr>)"
    and "surface c = surface (ctx2d (el s1)) @
              map (animal_paint 0.01 ''#758b9e'' (width (el s1)) (height (el s1))) as"
    by blast
  then show ?case
    by (intro exI [of _ c]) (simp add: js_bind_def s1 tr w1 h1 su eq)
qed

lemma drawFood_defined:
  assumes "ctxt s = Context_of_el"
  shows "\<exists>c. drawFood fs s =
           (Inr (), s\<lparr>trace := trace s @ map (food_event (width (el s)) (height (el s))) fs,
                     el := (el s)\<lparr>ctx2d := c\<rparr>\<rparr>)
         \<and> surface c = surface (ctx2d (el s)) @
              map (food_paint 0.003 ''#b4a794'' (width (el s)) (height (el s))) fs"
  using assms
proof (induction fs arbitrary: s)
  case Nil
  show ?case by (rule exI [of _ "ctx2d (el s)"]) (simp add: js_return_def)
next
  case (Cons f fs)
  let ?x = "food_x f * width (el s)" and ?y = "food_y f * height (el s)"
  define s1 where "s1 = snd (fillFood ?x ?y s)"
  note ff = fillFood_defined [OF Cons.prems, of ?x ?y]
  have s1: "fillFood ?x ?y s = (Inr (), s1)"
    by (simp add: s1_def ff)
  have tr: "trace s1 = trace s @ [food_event (width (el s)) (height (el s)) f]"
    and c1: "ctxt s1 = Context_of_el"
    and w1: "width (el s1) = width (el s)" and h1: "height (el s1) = height (el s)"
    and su: "surface (ctx2d (el s1)) = surface (ctx2d (el s)) @ [food_paint 0.003 ''#b4a794'' (width (el s)) (height (el s)) f]"
    by (simp_all add: s1_def ff Cons.prems food_event_def food_paint_def)
  have eq: "s1\<lparr>trace := t, el := (el s1)\<lparr>ctx2d := c\<rparr>\<rparr> = s\<lparr>trace := t, el := (el s)\<lparr>ctx2d := c\<rparr>\<rparr>" for t c
    by (simp add: s1_def ff)
  from Cons.IH [OF c1] obtain c where
    "drawFood fs s1 = (Inr (), s1\<lparr>trace := trace s1 @ map (food_event (width (el s1)) (height (el s1))) fs,
                     el := (el s1)\<lparr>ctx2d := c\<rparr>\<rparr>)"
    and "surface c = surface (ctx2d (el s1)) @
              map (food_paint 0.003 ''#b4a794'' (width (el s1)) (height (el s1))) fs"
    by blast
  then show ?case
    by (intro exI [of _ c]) (simp add: js_bind_def s1 tr w1 h1 su eq)
qed

subsection \<open>One call at a time, in the middle of a cycle\<close>

lemma mid_cycle_simps [simp]:
  "simulation (mid_cycle s e n evs c) = e"
  "win (mid_cycle s e n evs c) = win s"
  "frames_requested (mid_cycle s e n evs c) = frames_requested s + n"
  "trace (mid_cycle s e n evs c) = trace s @ evs"
  "ctxt (mid_cycle s e n evs c) = Context_of_el"
  "controllerText (mid_cycle s e n evs c) = controllerText s"
  "width (el (mid_cycle s e n evs c)) = view_width (win s)"
  "height (el (mid_cycle s e n evs c)) = view_height (win s)"
  "style_width (el (mid_cycle s e n evs c)) = css_px (logical_size (win s)) (style_width (el s))"
  "style_height (el (mid_cycle s e n evs c)) = css_px (logical_size (win s)) (style_height (el s))"
  "ctx2d (el (mid_cycle s e n evs c)) = c"
  by (simp_all add: mid_cycle_def)

lemma mid_cycle_text_simps [simp]:
  "simulation ((mid_cycle s e n evs c)\<lparr>controllerText := t\<rparr>) = e"
  "frames_requested ((mid_cycle s e n evs c)\<lparr>controllerText := t\<rparr>) = frames_requested s + n"
  "trace ((mid_cycle s e n evs c)\<lparr>controllerText := t\<rparr>) = trace s @ evs"
  "el ((mid_cycle s e n evs c)\<lparr>controllerText := t\<rparr>) = el (mid_cycle s e n evs c)"
  by (simp_all add: mid_cycle_def)

lemma reset_mid:
  "reset s =
     (Inr (), mid_cycle s (simulation s) 0
        [Ev_reset, Ev_clearRect 0 0 (view_width (win s)) (view_width (win s))]
        (initial_context\<lparr>surface := [ClearRect 0 0 (view_width (win s)) (view_width (win s))]\<rparr>))"
  by (simp add: reset_def Let_def log_def on_ctxt_def clearRect_def view_width_def view_height_def
        logical_size_def mid_cycle_def set_width_def set_height_def set_style_width_def
        set_style_height_def css_px_def initial_context_def)

lemma engine_mid:
  "engine ev m (mid_cycle s e n evs c) = (fst (m e), mid_cycle s (snd (m e)) n (evs @ [ev]) c)"
  by (simp add: engine_def log_def mid_cycle_def split: prod.splits)

lemma step_loop_0:
  "step_loop sim 0 = js_bind (engine Ev_step (step sim)) (\<lambda>_. js_return ())"
  by (simp add: step_loop.simps [of sim 0] step_loop.simps [of sim "Suc 0"])

lemma step_loop_mid:
  "step_loop sim 0 (mid_cycle s e n evs c) =
     (fst (step sim e), mid_cycle s (snd (step sim e)) n (evs @ [Ev_step]) c)"
  by (cases "fst (step sim e)") (simp_all add: step_loop_0 js_bind_def engine_mid js_return_def)

lemma drawAnimals_mid:
  "\<exists>c'. drawAnimals as (mid_cycle s e n evs c) =
          (Inr (), mid_cycle s e n (evs @ map (animal_event (view_width (win s)) (view_height (win s))) as) c')
        \<and> surface c' = surface c @
            map (animal_paint 0.01 ''#758b9e'' (view_width (win s)) (view_height (win s))) as"
proof -
  have "ctxt (mid_cycle s e n evs c) = Context_of_el" by simp
  from drawAnimals_defined [OF this, of as] obtain c' where
    "drawAnimals as (mid_cycle s e n evs c) =
       (Inr (), (mid_cycle s e n evs c)\<lparr>trace := (trace s @ evs) @ map (animal_event (view_width (win s)) (view_height (win s))) as,
                     el := (el (mid_cycle s e n evs c))\<lparr>ctx2d := c'\<rparr>\<rparr>)"
    and "surface c' = surface c @ map (animal_paint 0.01 ''#758b9e'' (view_width (win s)) (view_height (win s))) as"
    by auto
  then show ?thesis
    by (intro exI [of _ c']) (simp add: mid_cycle_def)
qed

lemma drawFood_mid:
  "\<exists>c'. drawFood fs (mid_cycle s e n evs c) =
          (Inr (), mid_cycle s e n (evs @ map (food_event (view_width (win s)) (view_height (win s))) fs) c')
        \<and> surface c' = surface c @
            map (food_paint 0.003 ''#b4a794'' (view_width (win s)) (view_height (win s))) fs"
proof -
  have "ctxt (mid_cycle s e n evs c) = Context_of_el" by simp
  from drawFood_defined [OF this, of fs] obtain c' where
    "drawFood fs (mid_cycle s e n evs c) =
       (Inr (), (mid_cycle s e n evs c)\<lparr>trace := (trace s @ evs) @ map (food_event (view_width (win s)) (view_height (win s))) fs,
                     el := (el (mid_cycle s e n evs c))\<lparr>ctx2d := c'\<rparr>\<rparr>)"
    and "surface c' = surface c @ map (food_paint 0.003 ''#b4a794'' (view_width (win s)) (view_height (win s))) fs"
    by auto
  then show ?thesis
    by (intro exI [of _ c']) (simp add: mid_cycle_def)
qed

lemma requestAnimationFrame_mid:
  "requestAnimationFrame (mid_cycle s e n evs c) =
     (Inr (), mid_cycle s e (Suc n) (evs @ [Ev_requestAnimationFrame]) c)"
  by (simp add: requestAnimationFrame_def log_def mid_cycle_def)

lemma setControllerText_mid:
  "setControllerText t (mid_cycle s e n evs c) =
     (Inr (), (mid_cycle s e n (evs @ [Ev_setControllerText t]) c)\<lparr>controllerText := replace_newlines t\<rparr>)"
  by (simp add: setControllerText_def Let_def log_def mid_cycle_def)


lemma case_map_option:
  "(case v of None \<Rightarrow> None | Some a \<Rightarrow> Some (f a)) = map_option f v"
  by (cases v) simp_all

lemma redraw_outcome [case_names step_throws stats_throws world1_throws world2_throws
    generation_throws generation_steps_throws returns]:
  fixes sim :: "'e simulation_api" and fmt :: "real \<Rightarrow> string" and s :: "'e page"
  defines "W \<equiv> view_width (win s)" and "H \<equiv> view_height (win s)"
  defines "c0 \<equiv> initial_context\<lparr>surface := [ClearRect 0 0 W W]\<rparr>"
  obtains
    e e1 where
      "step sim (simulation s) = (Inl e, e1)"
      "redraw sim fmt s = (Inl e, mid_cycle s e1 0 [Ev_reset, Ev_clearRect 0 0 W W, Ev_step] c0)"
  | e e1 e2 where
      "step sim (simulation s) = (Inr (), e1)"
      "prev_generation_statistics sim e1 = (Inl e, e2)"
      "redraw sim fmt s = (Inl e, mid_cycle s e2 0
         [Ev_reset, Ev_clearRect 0 0 W W, Ev_step, Ev_prev_generation_statistics] c0)"
  | e e1 st e2 e3 where
      "step sim (simulation s) = (Inr (), e1)"
      "prev_generation_statistics sim e1 = (Inr st, e2)"
      "world sim e2 = (Inl e, e3)"
      "redraw sim fmt s = (Inl e, mid_cycle s e3 0
         [Ev_reset, Ev_clearRect 0 0 W W, Ev_step, Ev_prev_generation_statistics, Ev_world] c0)"
  | e e1 st e2 w1 e3 e4 c where
      "step sim (simulation s) = (Inr (), e1)"
      "prev_generation_statistics sim e1 = (Inr st, e2)"
      "world sim e2 = (Inr w1, e3)"
      "world sim e3 = (Inl e, e4)"
      "redraw sim fmt s = (Inl e, mid_cycle s e4 0
         ([Ev_reset, Ev_clearRect 0 0 W W, Ev_step, Ev_prev_generation_statistics, Ev_world] @
          map (animal_event W H) (animals w1) @ [Ev_world]) c)"
  | e e1 st e2 w1 e3 w2 e4 e5 c where
      "step sim (simulation s) = (Inr (), e1)"
      "prev_generation_statistics sim e1 = (Inr st, e2)"
      "world sim e2 = (Inr w1, e3)"
      "world sim e3 = (Inr w2, e4)"
      "generation sim e4 = (Inl e, e5)"
      "redraw sim fmt s = (Inl e, mid_cycle s e5 1
         ([Ev_reset, Ev_clearRect 0 0 W W, Ev_step, Ev_prev_generation_statistics, Ev_world] @
          map (animal_event W H) (animals w1) @ [Ev_world] @
          map (food_event W H) (food w2) @ [Ev_requestAnimationFrame, Ev_generation]) c)"
  | e e1 st e2 w1 e3 w2 e4 g e5 e6 c where
      "step sim (simulation s) = (Inr (), e1)"
      "prev_generation_statistics sim e1 = (Inr st, e2)"
      "world sim e2 = (Inr w1, e3)"
      "world sim e3 = (Inr w2, e4)"
      "generation sim e4 = (Inr g, e5)"
      "generation_steps sim e5 = (Inl e, e6)"
      "redraw sim fmt s = (Inl e, mid_cycle s e6 1
         ([Ev_reset, Ev_clearRect 0 0 W W, Ev_step, Ev_prev_generation_statistics, Ev_world] @
          map (animal_event W H) (animals w1) @ [Ev_world] @
          map (food_event W H) (food w2) @
          [Ev_requestAnimationFrame, Ev_generation, Ev_generation_steps]) c)"
  | e1 st e2 w1 e3 w2 e4 g e5 gs e6 c where
      "step sim (simulation s) = (Inr (), e1)"
      "prev_generation_statistics sim e1 = (Inr st, e2)"
      "world sim e2 = (Inr w1, e3)"
      "world sim e3 = (Inr w2, e4)"
      "generation sim e4 = (Inr g, e5)"
      "generation_steps sim e5 = (Inr gs, e6)"
      "redraw sim fmt s = (Inr (), (mid_cycle s e6 1
         ([Ev_reset, Ev_clearRect 0 0 W W, Ev_step, Ev_prev_generation_statistics, Ev_world] @
          map (animal_event W H) (animals w1) @ [Ev_world] @
          map (food_event W H) (food w2) @
          [Ev_requestAnimationFrame, Ev_generation, Ev_generation_steps,
           Ev_setControllerText (stats_text fmt g gs st)]) c)
         \<lparr>controllerText := replace_newlines (stats_text fmt g gs st)\<rparr>)"
      "surface c = [ClearRect 0 0 W W] @
         map (animal_paint 0.01 ''#758b9e'' W H) (animals w1) @
         map (food_paint 0.003 ''#b4a794'' W H) (food w2)"
proof -
  note defs = redraw_def js_bind_def reset_mid step_loop_mid engine_mid Let_def
    requestAnimationFrame_mid setControllerText_mid W_def [symmetric] H_def [symmetric]
    c0_def [symmetric]
  obtain r1 e1 where q1: "step sim (simulation s) = (r1, e1)" by force
  show thesis
  proof (cases r1)
    case (Inl e)
    with q1 show thesis by (intro that(1) [of e e1]) (simp_all add: defs)
  next
    case Inr
    with q1 have p1: "step sim (simulation s) = (Inr (), e1)" by simp
    obtain r2 e2 where q2: "prev_generation_statistics sim e1 = (r2, e2)" by force
    show thesis
    proof (cases r2)
      case (Inl e)
      with q2 p1 show thesis by (intro that(2) [of e1 e e2]) (simp_all add: defs)
    next
      case (Inr st)
      with q2 have p2: "prev_generation_statistics sim e1 = (Inr st, e2)" by simp
      obtain r3 e3 where q3: "world sim e2 = (r3, e3)" by force
      show thesis
      proof (cases r3)
        case (Inl e)
        with q3 p1 p2 show thesis by (intro that(3) [of e1 st e2 e e3]) (simp_all add: defs)
      next
        case (Inr w1)
        with q3 have p3: "world sim e2 = (Inr w1, e3)" by simp
        let ?t4 = "[Ev_reset, Ev_clearRect 0 0 W W, Ev_step, Ev_prev_generation_statistics, Ev_world]"
        from drawAnimals_mid [of "animals w1" s e3 0 ?t4 c0] obtain c5 where
          d5: "drawAnimals (animals w1) (mid_cycle s e3 0 ?t4 c0) =
                 (Inr (), mid_cycle s e3 0 (?t4 @ map (animal_event W H) (animals w1)) c5)"
          and su5: "surface c5 = surface c0 @ map (animal_paint 0.01 ''#758b9e'' W H) (animals w1)"
          unfolding W_def H_def by blast
        obtain r4 e4 where q4: "world sim e3 = (r4, e4)" by force
        show thesis
        proof (cases r4)
          case (Inl e)
          with q4 p1 p2 p3 d5 show thesis
            by (intro that(4) [of e1 st e2 w1 e3 e e4 c5]) (simp_all add: defs)
        next
          case (Inr w2)
          with q4 have p4: "world sim e3 = (Inr w2, e4)" by simp
          let ?t6 = "?t4 @ map (animal_event W H) (animals w1) @ [Ev_world]"
          from drawFood_mid [of "food w2" s e4 0 ?t6 c5] obtain c7 where
            d7: "drawFood (food w2) (mid_cycle s e4 0 ?t6 c5) =
                   (Inr (), mid_cycle s e4 0 (?t6 @ map (food_event W H) (food w2)) c7)"
            and su7: "surface c7 = surface c5 @ map (food_paint 0.003 ''#b4a794'' W H) (food w2)"
            unfolding W_def H_def by blast
          obtain r5 e5 where q5: "generation sim e4 = (r5, e5)" by force
          show thesis
          proof (cases r5)
            case (Inl e)
            with q5 p1 p2 p3 p4 d5 d7 show thesis
              by (intro that(5) [of e1 st e2 w1 e3 w2 e4 e e5 c7]) (simp_all add: defs)
          next
            case (Inr g)
            with q5 have p5: "generation sim e4 = (Inr g, e5)" by simp
            obtain r6 e6 where q6: "generation_steps sim e5 = (r6, e6)" by force
            show thesis
            proof (cases r6)
              case (Inl e)
              with q6 p1 p2 p3 p4 p5 d5 d7 show thesis
                by (intro that(6) [of e1 st e2 w1 e3 w2 e4 g e5 e e6 c7]) (simp_all add: defs)
            next
              case (Inr gs)
              have su: "surface c7 = [ClearRect 0 0 W W] @
                  map (animal_paint 0.01 ''#758b9e'' W H) (animals w1) @
                  map (food_paint 0.003 ''#b4a794'' W H) (food w2)"
                by (simp add: su7 su5 c0_def)
              from Inr q6 p1 p2 p3 p4 p5 d5 d7 show thesis
                by (intro that(7) [of e1 st e2 w1 e3 w2 e4 g e5 gs e6 c7, OF _ _ _ _ _ _ _ su])
                   (simp_all add: defs stats_text_def case_map_option)
            qed
          qed
        qed
      qed
    qed
  qed
qed

subsection \<open>The calls of \<open>wasm_app/index.js\<close>\<close>

lemma wasm_fillAnimal_eq:
  "wasm_fillAnimal x y r s =
     (Inr (), s\<lparr>trace := trace s @ [Ev_fillAnimal x y r],
               viewport := (viewport s)\<lparr>ctx2d := (ctx2d (viewport s))\<lparr>
                  path := animal_path (ANIMAL_SIZE * width (viewport s)) x y r,
                  fillStyle := ANIMAL_COLOR,
                  surface := surface (ctx2d (viewport s)) @
                    [Fill (animal_path (ANIMAL_SIZE * width (viewport s)) x y r) ANIMAL_COLOR]\<rparr>\<rparr>\<rparr>)"
  by (simp add: wasm_fillAnimal_def Let_def on_ctx_def log_def beginPath_def moveTo_def lineTo_def
        set_fillStyle_def fill_def animal_path_def)

lemma wasm_fillFood_eq:
  "wasm_fillFood x y s =
     (Inr (), s\<lparr>trace := trace s @ [Ev_fillFood x y],
               viewport := (viewport s)\<lparr>ctx2d := (ctx2d (viewport s))\<lparr>
                  path := [Arc x y (FOOD_SIZE * width (viewport s)) 0 (2 * pi)],
                  fillStyle := FOOD_COLOR,
                  surface := surface (ctx2d (viewport s)) @
                    [Fill [Arc x y (FOOD_SIZE * width (viewport s)) 0 (2 * pi)] FOOD_COLOR]\<rparr>\<rparr>\<rparr>)"
  by (simp add: wasm_fillFood_def Let_def on_ctx_def log_def beginPath_def arc_def
        set_fillStyle_def fill_def)

lemma each_animal_eq:
  "\<exists>c. each_animal as s =
           (Inr (), s\<lparr>trace := trace s @ map (animal_event (width (viewport s)) (height (viewport s))) as,
                     viewport := (viewport s)\<lparr>ctx2d := c\<rparr>\<rparr>)
         \<and> surface c = surface (ctx2d (viewport s)) @
              map (animal_paint ANIMAL_SIZE ANIMAL_COLOR (width (viewport s)) (height (viewport s))) as"
proof (induction as arbitrary: s)
  case Nil
  show ?case by (rule exI [of _ "ctx2d (viewport s)"]) (simp add: js_return_def)
next
  case (Cons a as)
  let ?x = "animal_x a * width (viewport s)" and ?y = "animal_y a * height (viewport s)"
  let ?r = "animal_rotation a"
  define s1 where "s1 = snd (wasm_fillAnimal ?x ?y ?r s)"
  note fa = wasm_fillAnimal_eq [of ?x ?y ?r s]
  have s1: "wasm_fillAnimal ?x ?y ?r s = (Inr (), s1)"
    by (simp add: s1_def fa)
  have tr: "trace s1 = trace s @ [animal_event (width (viewport s)) (height (viewport s)) a]"
    and w1: "width (viewport s1) = width (viewport s)"
    and h1: "height (viewport s1) = height (viewport s)"
    and su: "surface (ctx2d (viewport s1)) = surface (ctx2d (viewport s)) @
               [animal_paint ANIMAL_SIZE ANIMAL_COLOR (width (viewport s)) (height (viewport s)) a]"
    by (simp_all add: s1_def fa animal_event_def animal_paint_def)
  have eq: "s1\<lparr>trace := t, viewport := (viewport s1)\<lparr>ctx2d := c\<rparr>\<rparr> =
            s\<lparr>trace := t, viewport := (viewport s)\<lparr>ctx2d := c\<rparr>\<rparr>" for t c
    by (simp add: s1_def fa)
  from Cons.IH [of s1] obtain c where
    "each_animal as s1 =
       (Inr (), s1\<lparr>trace := trace s1 @ map (animal_event (width (viewport s1)) (height (viewport s1))) as,
                  viewport := (viewport s1)\<lparr>ctx2d := c\<rparr>\<rparr>)"
    and "surface c = surface (ctx2d (viewport s1)) @
           map (animal_paint ANIMAL_SIZE ANIMAL_COLOR (width (viewport s1)) (height (viewport s1))) as"
    by blast
  then show ?case
    by (intro exI [of _ c]) (simp add: js_bind_def s1 tr w1 h1 su eq)
qed

lemma each_food_eq:
  "\<exists>c. each_food fs s =
           (Inr (), s\<lparr>trace := trace s @ map (food_event (width (viewport s)) (height (viewport s))) fs,
                     viewport := (viewport s)\<lparr>ctx2d := c\<rparr>\<rparr>)
         \<and> surface c = surface (ctx2d (viewport s)) @
              map (food_paint FOOD_SIZE FOOD_COLOR (width (viewport s)) (height (viewport s))) fs"
proof (induction fs arbitrary: s)
  case Nil
  show ?case by (rule exI [of _ "ctx2d (viewport s)"]) (simp add: js_return_def)
next
  case (Cons f fs)
  let ?x = "food_x f * width (viewport s)" and ?y = "food_y f * height (viewport s)"
  define s1 where "s1 = snd (wasm_fillFood ?x ?y s)"
  note ff = wasm_fillFood_eq [of ?x ?y s]
  have s1: "wasm_fillFood ?x ?y s = (Inr (), s1)"
    by (simp add: s1_def ff)
  have tr: "trace s1 = trace s @ [food_event (width (viewport s)) (height (viewport s)) f]"
    and w1: "width (viewport s1) = width (viewport s)"
    and h1: "height (viewport s1) = height (viewport s)"
    and su: "surface (ctx2d (viewport s1)) = surface (ctx2d (viewport s)) @
               [food_paint FOOD_SIZE FOOD_COLOR (width (viewport s)) (height (viewport s)) f]"
    by (simp_all add: s1_def ff food_event_def food_paint_def)
  have eq: "s1\<lparr>trace := t, viewport := (viewport s1)\<lparr>ctx2d := c\<rparr>\<rparr> =
            s\<lparr>trace := t, viewport := (viewport s)\<lparr>ctx2d := c\<rparr>\<rparr>" for t c
    by (simp add: s1_def ff)
  from Cons.IH [of s1] obtain c where
    "each_food fs s1 =
       (Inr (), s1\<lparr>trace := trace s1 @ map (food_event (width (viewport s1)) (height (viewport s1))) fs,
                  viewport := (viewport s1)\<lparr>ctx2d := c\<rparr>\<rparr>)"
    and "surface c = surface (ctx2d (viewport s1)) @
           map (food_paint FOOD_SIZE FOOD_COLOR (width (viewport s1)) (height (viewport s1))) fs"
    by blast
  then show ?case
    by (intro exI [of _ c]) (simp add: js_bind_def s1 tr w1 h1 su eq)
qed

lemma wasm_mid_simps [simp]:
  "simulation (wasm_mid s e n evs c) = e"
  "win (wasm_mid s e n evs c) = win s"
  "frames_requested (wasm_mid s e n evs c) = frames_requested s + n"
  "trace (wasm_mid s e n evs c) = trace s @ evs"
  "width (viewport (wasm_mid s e n evs c)) = width (viewport s)"
  "height (viewport (wasm_mid s e n evs c)) = height (viewport s)"
  "style_width (viewport (wasm_mid s e n evs c)) = style_width (viewport s)"
  "style_height (viewport (wasm_mid s e n evs c)) = style_height (viewport s)"
  "ctx2d (viewport (wasm_mid s e n evs c)) = c"
  by (simp_all add: wasm_mid_def)

lemma wasm_mid_start: "wasm_mid s (simulation s) 0 [] (ctx2d (viewport s)) = s"
  by (simp add: wasm_mid_def)

lemma engine_wasm_mid:
  "engine ev m (wasm_mid s e n evs c) = (fst (m e), wasm_mid s (snd (m e)) n (evs @ [ev]) c)"
  by (simp add: engine_def log_def wasm_mid_def split: prod.splits)

lemma each_animal_mid:
  "\<exists>c'. each_animal as (wasm_mid s e n evs c) =
          (Inr (), wasm_mid s e n (evs @ map (animal_event (width (viewport s)) (height (viewport s))) as) c')
        \<and> surface c' = surface c @
            map (animal_paint ANIMAL_SIZE ANIMAL_COLOR (width (viewport s)) (height (viewport s))) as"
proof -
  from each_animal_eq [of as "wasm_mid s e n evs c"] obtain c' where
    "each_animal as (wasm_mid s e n evs c) =
       (Inr (), (wasm_mid s e n evs c)\<lparr>trace := (trace s @ evs) @ map (animal_event (width (viewport s)) (height (viewport s))) as,
                     viewport := (viewport (wasm_mid s e n evs c))\<lparr>ctx2d := c'\<rparr>\<rparr>)"
    and "surface c' = surface c @ map (animal_paint ANIMAL_SIZE ANIMAL_COLOR (width (viewport s)) (height (viewport s))) as"
    by auto
  then show ?thesis
    by (intro exI [of _ c']) (simp add: wasm_mid_def)
qed

lemma each_food_mid:
  "\<exists>c'. each_food fs (wasm_mid s e n evs c) =
          (Inr (), wasm_mid s e n (evs @ map (food_event (width (viewport s)) (height (viewport s))) fs) c')
        \<and> surface c' = surface c @
            map (food_paint FOOD_SIZE FOOD_COLOR (width (viewport s)) (height (viewport s))) fs"
proof -
  from each_food_eq [of fs "wasm_mid s e n evs c"] obtain c' where
    "each_food fs (wasm_mid s e n evs c) =
       (Inr (), (wasm_mid s e n evs c)\<lparr>trace := (trace s @ evs) @ map (food_event (width (viewport s)) (height (viewport s))) fs,
                     viewport := (viewport (wasm_mid s e n evs c))\<lparr>ctx2d := c'\<rparr>\<rparr>)"
    and "surface c' = surface c @ map (food_paint FOOD_SIZE FOOD_COLOR (width (viewport s)) (height (viewport s))) fs"
    by auto
  then show ?thesis
    by (intro exI [of _ c']) (simp add: wasm_mid_def)
qed

lemma draw_animals_throws:
  assumes "world sim e = (Inl x, e')"
  shows "draw_animals sim (wasm_mid s e n evs c) = (Inl x, wasm_mid s e' n (evs @ [Ev_world]) c)"
  by (simp add: draw_animals_def js_bind_def engine_wasm_mid assms)

lemma draw_animals_returns:
  assumes "world sim e = (Inr w, e')"
  shows "\<exists>c'. draw_animals sim (wasm_mid s e n evs c) =
      (Inr (), wasm_mid s e' n (evs @ [Ev_world] @ map (animal_event (width (viewport s)) (height (viewport s))) (animals w)) c')
    \<and> surface c' = surface c @
        map (animal_paint ANIMAL_SIZE ANIMAL_COLOR (width (viewport s)) (height (viewport s))) (animals w)"
  using each_animal_mid [of "animals w" s e' n "evs @ [Ev_world]" c]
  by (simp add: draw_animals_def js_bind_def engine_wasm_mid assms)

lemma draw_food_throws:
  assumes "world sim e = (Inl x, e')"
  shows "draw_food sim (wasm_mid s e n evs c) = (Inl x, wasm_mid s e' n (evs @ [Ev_world]) c)"
  by (simp add: draw_food_def js_bind_def engine_wasm_mid assms)

lemma draw_food_returns:
  assumes "world sim e = (Inr w, e')"
  shows "\<exists>c'. draw_food sim (wasm_mid s e n evs c) =
      (Inr (), wasm_mid s e' n (evs @ [Ev_world] @ map (food_event (width (viewport s)) (height (viewport s))) (food w)) c')
    \<and> surface c' = surface c @
        map (food_paint FOOD_SIZE FOOD_COLOR (width (viewport s)) (height (viewport s))) (food w)"
  using each_food_mid [of "food w" s e' n "evs @ [Ev_world]" c]
  by (simp add: draw_food_def js_bind_def engine_wasm_mid assms)

lemma wasm_clearRect_mid:
  "wasm_clearRect rx ry rw rh (wasm_mid s e n evs c) =
     (Inr (), wasm_mid s e n (evs @ [Ev_clearRect rx ry rw rh])
        (c\<lparr>surface := surface c @ [ClearRect rx ry rw rh]\<rparr>))"
  by (simp add: wasm_clearRect_def on_ctx_def log_def clearRect_def wasm_mid_def)

lemma requestAnimationFrame_wasm_mid:
  "requestAnimationFrame (wasm_mid s e n evs c) =
     (Inr (), wasm_mid s e (Suc n) (evs @ [Ev_requestAnimationFrame]) c)"
  by (simp add: requestAnimationFrame_def log_def wasm_mid_def)

lemma wasm_redraw_outcome [case_names step_throws world1_throws world2_throws returns]:
  fixes sim :: "'e simulation_api" and s :: "'e wasm_page" and c :: context2d
  defines "W \<equiv> width (viewport s)" and "H \<equiv> height (viewport s)"
  defines "c0 \<equiv> c\<lparr>surface := surface c @ [ClearRect 0 0 W H]\<rparr>"
  obtains
    x e1 where
      "step sim e = (Inl x, e1)"
      "wasm_redraw sim (wasm_mid s e n evs c) =
         (Inl x, wasm_mid s e1 n (evs @ [Ev_clearRect 0 0 W H, Ev_step]) c0)"
  | x e1 e2 where
      "step sim e = (Inr (), e1)"
      "world sim e1 = (Inl x, e2)"
      "wasm_redraw sim (wasm_mid s e n evs c) =
         (Inl x, wasm_mid s e2 n (evs @ [Ev_clearRect 0 0 W H, Ev_step, Ev_world]) c0)"
  | x e1 w1 e2 e3 c' where
      "step sim e = (Inr (), e1)"
      "world sim e1 = (Inr w1, e2)"
      "world sim e2 = (Inl x, e3)"
      "wasm_redraw sim (wasm_mid s e n evs c) =
         (Inl x, wasm_mid s e3 n (evs @ [Ev_clearRect 0 0 W H, Ev_step, Ev_world] @
            map (animal_event W H) (animals w1) @ [Ev_world]) c')"
      "surface c' = surface c @ [ClearRect 0 0 W H] @
         map (animal_paint ANIMAL_SIZE ANIMAL_COLOR W H) (animals w1)"
  | e1 w1 e2 w2 e3 c' where
      "step sim e = (Inr (), e1)"
      "world sim e1 = (Inr w1, e2)"
      "world sim e2 = (Inr w2, e3)"
      "wasm_redraw sim (wasm_mid s e n evs c) =
         (Inr (), wasm_mid s e3 (Suc n) (evs @ [Ev_clearRect 0 0 W H, Ev_step, Ev_world] @
            map (animal_event W H) (animals w1) @ [Ev_world] @
            map (food_event W H) (food w2) @ [Ev_requestAnimationFrame]) c')"
      "surface c' = surface c @ [ClearRect 0 0 W H] @
         map (animal_paint ANIMAL_SIZE ANIMAL_COLOR W H) (animals w1) @
         map (food_paint FOOD_SIZE FOOD_COLOR W H) (food w2)"
proof -
  note defs = wasm_redraw_def js_bind_def wasm_clearRect_mid engine_wasm_mid
    requestAnimationFrame_wasm_mid W_def [symmetric] H_def [symmetric] c0_def [symmetric]
  obtain r1 e1 where q1: "step sim e = (r1, e1)" by force
  show thesis
  proof (cases r1)
    case (Inl x)
    with q1 show thesis by (intro that(1) [of x e1]) (simp_all add: defs)
  next
    case Inr
    with q1 have p1: "step sim e = (Inr (), e1)" by simp
    let ?t2 = "evs @ [Ev_clearRect 0 0 W H, Ev_step]"
    obtain r2 e2 where q2: "world sim e1 = (r2, e2)" by force
    show thesis
    proof (cases r2)
      case (Inl x)
      with q2 have p2: "world sim e1 = (Inl x, e2)" by simp
      from p1 p2 draw_animals_throws [OF p2, of s n ?t2 c0] show thesis
        by (intro that(2) [of e1 x e2]) (simp_all add: defs)
    next
      case (Inr w1)
      with q2 have p2: "world sim e1 = (Inr w1, e2)" by simp
      let ?t3 = "?t2 @ [Ev_world] @ map (animal_event W H) (animals w1)"
      from draw_animals_returns [OF p2, of s n ?t2 c0] obtain c3 where
        d3: "draw_animals sim (wasm_mid s e1 n ?t2 c0) = (Inr (), wasm_mid s e2 n ?t3 c3)"
        and su3: "surface c3 = surface c0 @ map (animal_paint ANIMAL_SIZE ANIMAL_COLOR W H) (animals w1)"
        unfolding W_def H_def by blast
      obtain r3 e3 where q3: "world sim e2 = (r3, e3)" by force
      show thesis
      proof (cases r3)
        case (Inl x)
        with q3 have p3: "world sim e2 = (Inl x, e3)" by simp
        have su: "surface c3 = surface c @ [ClearRect 0 0 W H] @
            map (animal_paint ANIMAL_SIZE ANIMAL_COLOR W H) (animals w1)"
          by (simp add: su3 c0_def)
        from p1 p2 p3 d3 draw_food_throws [OF p3, of s n ?t3 c3] show thesis
          by (intro that(3) [of e1 w1 e2 x e3 c3, OF _ _ _ _ su]) (simp_all add: defs)
      next
        case (Inr w2)
        with q3 have p3: "world sim e2 = (Inr w2, e3)" by simp
        let ?t4 = "?t3 @ [Ev_world] @ map (food_event W H) (food w2)"
        from draw_food_returns [OF p3, of s n ?t3 c3] obtain c4 where
          d4: "draw_food sim (wasm_mid s e2 n ?t3 c3) = (Inr (), wasm_mid s e3 n ?t4 c4)"
          and su4: "surface c4 = surface c3 @ map (food_paint FOOD_SIZE FOOD_COLOR W H) (food w2)"
          unfolding W_def H_def by blast
        have su: "surface c4 = surface c @ [ClearRect 0 0 W H] @
            map (animal_paint ANIMAL_SIZE ANIMAL_COLOR W H) (animals w1) @
            map (food_paint FOOD_SIZE FOOD_COLOR W H) (food w2)"
          by (simp add: su4 su3 c0_def)
        from p1 p2 p3 d3 d4 show thesis
          by (intro that(4) [of e1 w1 e2 w2 e3 c4, OF _ _ _ _ su]) (simp_all add: defs)
      qed
    qed
  qed
qed

subsection \<open>Paths, events and digits\<close>

lemma fill_outlines_triangle:
  "fill_outlines [MoveTo hx hy, LineTo ax ay, LineTo bx by, MoveTo hx hy] =
     [[MoveTo hx hy, LineTo ax ay, LineTo bx by, LineTo hx hy]]"
  by (simp add: fill_outlines_def subpaths_def add_op_def)

lemma on_circle: "(cos a * r)\<^sup>2 + (sin a * r)\<^sup>2 = r\<^sup>2" for r :: real
  by (simp add: power_mult_distrib flip: distrib_right)

lemma animal_path_on_circle:
  "list_all (\<lambda>(px, py). (px - x)\<^sup>2 + (py - y)\<^sup>2 = sz\<^sup>2) (vertices (animal_path sz x y r))"
  by (simp add: animal_path_def on_circle)

lemma animal_path_head: "hd (animal_path sz x y 0) = MoveTo (x + sz) y"
  by (simp add: animal_path_def)

lemma fillAnimal_ctx:
  assumes "ctxt s = Context_of_el"
  shows "ctx2d (el (snd (fillAnimal x y r s))) =
           (ctx2d (el s))\<lparr>path := animal_path (0.01 * width (el s)) x y r,
              fillStyle := ''#758b9e'',
              surface := surface (ctx2d (el s)) @
                [Fill (animal_path (0.01 * width (el s)) x y r) ''#758b9e'']\<rparr>"
    and "ctxt (snd (fillAnimal x y r s)) = Context_of_el"
    and "width (el (snd (fillAnimal x y r s))) = width (el s)"
  by (simp_all add: fillAnimal_defined [OF assms] assms)

lemma wasm_fillAnimal_ctx:
  "ctx2d (viewport (snd (wasm_fillAnimal x y r t))) =
     (ctx2d (viewport t))\<lparr>path := animal_path (ANIMAL_SIZE * width (viewport t)) x y r,
        fillStyle := ANIMAL_COLOR,
        surface := surface (ctx2d (viewport t)) @
          [Fill (animal_path (ANIMAL_SIZE * width (viewport t)) x y r) ANIMAL_COLOR]\<rparr>"
  "width (viewport (snd (wasm_fillAnimal x y r t))) = width (viewport t)"
  by (simp_all add: wasm_fillAnimal_eq)

lemma new_events_append: "trace s' = trace s @ evs \<Longrightarrow> new_events s s' = evs"
  by (simp add: new_events_def)


subsection \<open>The outcomes of a cycle\<close>

lemma filter_animal_events [simp]:
  "filter is_step (map (animal_event w h) as) = []"
  "filter is_fillFood (map (animal_event w h) as) = []"
  "filter is_fillAnimal (map (animal_event w h) as) = map (animal_event w h) as"
  "list_ex is_requestAnimationFrame (map (animal_event w h) as) = False"
  "list_ex is_setControllerText (map (animal_event w h) as) = False"
  by (induction as) (simp_all add: animal_event_def)

lemma filter_food_events [simp]:
  "filter is_step (map (food_event w h) fs) = []"
  "filter is_fillAnimal (map (food_event w h) fs) = []"
  "filter is_fillFood (map (food_event w h) fs) = map (food_event w h) fs"
  "list_ex is_requestAnimationFrame (map (food_event w h) fs) = False"
  "list_ex is_setControllerText (map (food_event w h) fs) = False"
  by (induction fs) (simp_all add: food_event_def)

lemma new_events_mid [simp]:
  "new_events s (mid_cycle s e n evs c) = evs"
  "new_events s ((mid_cycle s e n evs c)\<lparr>controllerText := t\<rparr>) = evs"
  by (simp_all add: new_events_def)

lemma mid_cycle_text [simp]:
  "controllerText ((mid_cycle s e n evs c)\<lparr>controllerText := t\<rparr>) = t"
  by simp

lemma new_events_wasm_mid [simp]: "new_events t (wasm_mid t e n evs c) = evs"
  by (simp add: new_events_def)

lemma wasm_redraw_cases [case_names step_throws world1_throws world2_throws returns]:
  fixes sim :: "'e simulation_api" and t :: "'e wasm_page"
  obtains
    x e1 c where
      "step sim (simulation t) = (Inl x, e1)"
      "wasm_redraw sim t =
         (Inl x, wasm_mid t e1 0
            [Ev_clearRect 0 0 (width (viewport t)) (height (viewport t)), Ev_step] c)"
  | x e1 e2 c where
      "step sim (simulation t) = (Inr (), e1)"
      "world sim e1 = (Inl x, e2)"
      "wasm_redraw sim t =
         (Inl x, wasm_mid t e2 0
            [Ev_clearRect 0 0 (width (viewport t)) (height (viewport t)), Ev_step, Ev_world] c)"
  | x e1 w1 e2 e3 c where
      "step sim (simulation t) = (Inr (), e1)"
      "world sim e1 = (Inr w1, e2)"
      "world sim e2 = (Inl x, e3)"
      "wasm_redraw sim t =
         (Inl x, wasm_mid t e3 0
            ([Ev_clearRect 0 0 (width (viewport t)) (height (viewport t)), Ev_step, Ev_world] @
             map (animal_event (width (viewport t)) (height (viewport t))) (animals w1) @
             [Ev_world]) c)"
  | e1 w1 e2 w2 e3 c where
      "step sim (simulation t) = (Inr (), e1)"
      "world sim e1 = (Inr w1, e2)"
      "world sim e2 = (Inr w2, e3)"
      "wasm_redraw sim t =
         (Inr (), wasm_mid t e3 (Suc 0)
            ([Ev_clearRect 0 0 (width (viewport t)) (height (viewport t)), Ev_step, Ev_world] @
             map (animal_event (width (viewport t)) (height (viewport t))) (animals w1) @
             [Ev_world] @
             map (food_event (width (viewport t)) (height (viewport t))) (food w2) @
             [Ev_requestAnimationFrame]) c)"
      "surface c = surface (ctx2d (viewport t)) @
         [ClearRect 0 0 (width (viewport t)) (height (viewport t))] @
         map (animal_paint ANIMAL_SIZE ANIMAL_COLOR (width (viewport t)) (height (viewport t)))
           (animals w1) @
         map (food_paint FOOD_SIZE FOOD_COLOR (width (viewport t)) (height (viewport t)))
           (food w2)"
proof (cases rule: wasm_redraw_outcome [where sim = sim and e = "simulation t" and s = t
      and n = 0 and evs = "[]" and c = "ctx2d (viewport t)"])
  case (step_throws x e1)
  show thesis
    by (rule that(1) [OF step_throws(1) step_throws(2) [unfolded wasm_mid_start append_Nil]])
next
  case (world1_throws x e1 e2)
  show thesis
    by (rule that(2) [OF world1_throws(1,2) world1_throws(3) [unfolded wasm_mid_start append_Nil]])
next
  case (world2_throws x e1 w1 e2 e3 c')
  show thesis
    by (rule that(3) [OF world2_throws(1-3) world2_throws(4) [unfolded wasm_mid_start append_Nil]])
next
  case (returns e1 w1 e2 w2 e3 c')
  show thesis
    by (rule that(4) [OF returns(1-3) returns(4) [unfolded wasm_mid_start append_Nil] returns(5)])
qed

lemma redraw_counts:
  "length (filter is_step (new_events s (snd (redraw sim fmt s)))) = 1"
  "step sim (simulation s) = (Inr (), e1) \<Longrightarrow>
   prev_generation_statistics sim e1 = (Inr st, e2) \<Longrightarrow>
   world sim e2 = (Inr w1, e3) \<Longrightarrow> world sim e3 = (Inr w2, e4) \<Longrightarrow>
     length (filter is_fillAnimal (new_events s (snd (redraw sim fmt s)))) = length (animals w1)
     \<and> length (filter is_fillFood (new_events s (snd (redraw sim fmt s)))) = length (food w2)"
  by (cases sim fmt s rule: redraw_outcome; simp)+

lemma wasm_redraw_counts:
  "length (filter is_step (new_events t (snd (wasm_redraw sim t)))) = 1"
  "step sim (simulation t) = (Inr (), e1) \<Longrightarrow>
   world sim e1 = (Inr w1, e2) \<Longrightarrow> world sim e2 = (Inr w2, e3) \<Longrightarrow>
     length (filter is_fillAnimal (new_events t (snd (wasm_redraw sim t)))) = length (animals w1)
     \<and> length (filter is_fillFood (new_events t (snd (wasm_redraw sim t)))) = length (food w2)"
  by (cases sim t rule: wasm_redraw_cases; simp)+

subsection \<open>The fixtures, run\<close>

lemma stub_calls:
  "step stub n = (Inr (), Suc n)"
  "world stub n = (Inr stub_world, n)"
  "generation stub n = (Inr 3, n)"
  "generation_steps stub n = (Inr 40, n)"
  "prev_generation_statistics stub n = (Inr (Some
     \<lparr>max_fitness = 1, min_fitness = 0.2, mean_fitness = 0.5, std_fitness = 0.1\<rparr>), n)"
  by (simp_all add: stub_def)

lemma page0_view [simp]: "view_width (win page0) = 800" "view_height (win page0) = 800"
  by (simp_all add: page0_def window0_def view_width_def view_height_def logical_size_def
        pixel_ratio_def canvas_size_def to_unsigned_long_def)

lemma stub_redraw:
  "\<exists>c. redraw stub fmt page0 =
     (Inr (), (mid_cycle page0 1 1
        [Ev_reset, Ev_clearRect 0 0 800 800, Ev_step, Ev_prev_generation_statistics, Ev_world,
         Ev_fillAnimal 400 200 0, Ev_fillAnimal 1200 (- 200) pi, Ev_world, Ev_fillFood 600 1600,
         Ev_requestAnimationFrame, Ev_generation, Ev_generation_steps,
         Ev_setControllerText (stats_text fmt 3 40 (Some
           \<lparr>max_fitness = 1, min_fitness = 0.2, mean_fitness = 0.5, std_fitness = 0.1\<rparr>))] c)
        \<lparr>controllerText := replace_newlines (stats_text fmt 3 40 (Some
           \<lparr>max_fitness = 1, min_fitness = 0.2, mean_fitness = 0.5, std_fitness = 0.1\<rparr>))\<rparr>)"
proof (cases stub fmt page0 rule: redraw_outcome)
  case (returns e1 st e2 w1 e3 w2 e4 g e5 gs e6 c)
  from returns(1-6) have "e6 = 1" "w1 = stub_world" "w2 = stub_world" "g = 3" "gs = 40"
    "st = Some \<lparr>max_fitness = 1, min_fitness = 0.2, mean_fitness = 0.5, std_fitness = 0.1\<rparr>"
    by (simp_all add: stub_calls page0_def)
  with returns(7) show ?thesis
    by (intro exI [of _ c]) (simp add: stub_world_def animal_event_def food_event_def)
qed (simp_all add: stub_calls)

lemma stub_generation_throws_redraw:
  "\<exists>c. redraw stub_generation_throws fmt page0 =
     (Inl (EngineError ''generation''), mid_cycle page0 1 1
        [Ev_reset, Ev_clearRect 0 0 800 800, Ev_step, Ev_prev_generation_statistics, Ev_world,
         Ev_fillAnimal 400 200 0, Ev_fillAnimal 1200 (- 200) pi, Ev_world, Ev_fillFood 600 1600,
         Ev_requestAnimationFrame, Ev_generation] c)"
proof (cases stub_generation_throws fmt page0 rule: redraw_outcome)
  case (generation_throws e e1 st e2 w1 e3 w2 e4 e5 c)
  from generation_throws(1-5) have "e5 = 1" "w1 = stub_world" "w2 = stub_world"
    "e = EngineError ''generation''"
    by (simp_all add: stub_generation_throws_def stub_def page0_def)
  with generation_throws(6) show ?thesis
    by (intro exI [of _ c]) (simp add: stub_world_def animal_event_def food_event_def)
qed (simp_all add: stub_generation_throws_def stub_def)

lemma wasm_page0_size [simp]:
  "width (viewport wasm_page0) = 300" "height (viewport wasm_page0) = 150"
  by (simp_all add: wasm_page0_def canvas0_def)

lemma stub_step_throws_redraw:
  "\<exists>c. redraw stub_step_throws fmt page0 =
     (Inl (EngineError ''step''), mid_cycle page0 0 0
        [Ev_reset, Ev_clearRect 0 0 800 800, Ev_step] c)"
proof (cases stub_step_throws fmt page0 rule: redraw_outcome)
  case (step_throws e e1)
  from step_throws(1) have "e = EngineError ''step''" "e1 = 0"
    by (simp_all add: stub_step_throws_def stub_def page0_def)
  with step_throws(2) show ?thesis
    by auto
qed (simp_all add: stub_step_throws_def stub_def)

lemma stub_step_throws_wasm_redraw:
  "\<exists>c. wasm_redraw stub_step_throws wasm_page0 =
     (Inl (EngineError ''step''), wasm_mid wasm_page0 0 0 [Ev_clearRect 0 0 300 150, Ev_step] c)"
proof (cases stub_step_throws wasm_page0 rule: wasm_redraw_cases)
  case (step_throws e e1 c)
  from step_throws(1) have "e = EngineError ''step''" "e1 = 0"
    by (simp_all add: stub_step_throws_def stub_def wasm_page0_def)
  with step_throws(2) show ?thesis
    by auto
qed (simp_all add: stub_step_throws_def stub_def)

subsection \<open>The text of the statistics\<close>

lemma replace_newlines_append:
  "replace_newlines (xs @ ys) = replace_newlines xs @ replace_newlines ys"
  by (induction xs) simp_all

lemma replace_newlines_id:
  "CHR ''\<newline>'' \<notin> set xs \<Longrightarrow> replace_newlines xs = xs"
  by (induction xs) auto

lemma digit_not_newline: "d < 10 \<Longrightarrow> digit d \<noteq> CHR ''\<newline>''"
proof
  assume d: "d < 10" and "digit d = CHR ''\<newline>''"
  then have "of_char (char_of (48 + d) :: char) = (of_char (CHR ''\<newline>'') :: nat)"
    by (simp add: digit_def)
  with d show False
    by simp
qed

lemma show_nat_no_newline: "CHR ''\<newline>'' \<notin> set (show_nat n)"
proof (induction n rule: show_nat.induct)
  case (1 n)
  show ?case
  proof (cases "n < 10")
    case True
    then show ?thesis
      using digit_not_newline [of n] by (subst show_nat.simps) auto
  next
    case False
    moreover have "digit (n mod 10) \<noteq> CHR ''\<newline>''"
      by (rule digit_not_newline) simp
    ultimately show ?thesis
      using "1.IH" by (subst show_nat.simps) auto
  qed
qed

lemma replace_newlines_show_nat [simp]: "replace_newlines (show_nat n) = show_nat n"
  by (rule replace_newlines_id) (rule show_nat_no_newline)

lemma replace_newlines_stats_text:
  "replace_newlines (stats_text fmt g gs st) =
     ''Generation: '' @ show_nat g @ ''<br>'' @
     ''Generation steps: '' @ show_nat gs @ ''<br><br>'' @
     ''Prev generation stats:<br>'' @
     (case st of
        None \<Rightarrow>
          ''Max fitness: null<br>Min fitness: null<br>Mean fitness: null<br>Std fitness: null<br>''
      | Some v \<Rightarrow>
          ''Max fitness: '' @ replace_newlines (Number_toString fmt (max_fitness v)) @ ''<br>'' @
          ''Min fitness: '' @ replace_newlines (Number_toString fmt (min_fitness v)) @ ''<br>'' @
          ''Mean fitness: '' @ replace_newlines (Number_toString fmt (mean_fitness v)) @ ''<br>'' @
          ''Std fitness: '' @ replace_newlines (Number_toString fmt (std_fitness v)) @ ''<br>'')"
  by (cases st) (simp_all add: stats_text_def replace_newlines_append template_def)

lemma redraw_text:
  assumes "step sim (simulation s) = (Inr (), e1)"
    and "prev_generation_statistics sim e1 = (Inr st, e2)"
    and "world sim e2 = (Inr w1, e3)"
    and "world sim e3 = (Inr w2, e4)"
    and "generation sim e4 = (Inr g, e5)"
    and "generation_steps sim e5 = (Inr gs, e6)"
  shows "fst (redraw sim fmt s) = Inr ()"
    and "controllerText (snd (redraw sim fmt s)) = replace_newlines (stats_text fmt g gs st)"
    and "last (new_events s (snd (redraw sim fmt s))) = Ev_setControllerText (stats_text fmt g gs st)"
  using assms by (cases sim fmt s rule: redraw_outcome; simp)+

lemma show_small:
  "show_nat 3 = ''3''" "show_nat 40 = ''40''" "show_int 1 = ''1''"
  by code_simp+

lemma short_decimal_prints:
  "Number_toString short_decimal 1 = ''1''"
  "Number_toString short_decimal 0.2 = ''0.2''"
  "Number_toString short_decimal 0.5 = ''0.5''"
  "Number_toString short_decimal 0.1 = ''0.1''"
  "Number_toString short_decimal (1 / 5) = ''0.2''"
  "Number_toString short_decimal (1 / 2) = ''0.5''"
  by (simp_all add: Number_toString_def short_decimal_def show_small)

lemma stub_no_statistics_calls:
  "step stub_no_statistics n = (Inr (), Suc n)"
  "world stub_no_statistics n = (Inr stub_world, n)"
  "generation stub_no_statistics n = (Inr 3, n)"
  "generation_steps stub_no_statistics n = (Inr 40, n)"
  "prev_generation_statistics stub_no_statistics n = (Inr None, n)"
  by (simp_all add: stub_no_statistics_def stub_def)

subsection \<open>The size a canvas takes\<close>

lemma canvas_size_floor:
  assumes "0 \<le> v" and "v < 2 ^ 31"
  shows "canvas_size d v = of_int \<lfloor>v\<rfloor>"
proof -
  have lo: "0 \<le> \<lfloor>v\<rfloor>" using assms(1) by simp
  have "\<lfloor>v\<rfloor> < 2 ^ 31" using assms(2) by (simp add: floor_less_iff)
  then have hi: "\<lfloor>v\<rfloor> \<le> 2147483647" by simp
  from lo hi have "\<lfloor>v\<rfloor> mod 2 ^ 32 = \<lfloor>v\<rfloor>" by simp
  with assms(1) hi show ?thesis
    by (simp add: canvas_size_def to_unsigned_long_def Let_def)
qed



lemma canvas_size_square:
  "canvas_size 150 v = canvas_size 300 v \<or> (canvas_size 300 v = 300 \<and> canvas_size 150 v = 150)"
  by (simp add: canvas_size_def Let_def)







subsection \<open>The script of \<open>wasm_app\<close> from the top\<close>

lemma size_viewport_simps [simp]:
  "simulation (size_viewport t) = simulation t"
  "win (size_viewport t) = win t"
  "frames_requested (size_viewport t) = frames_requested t"
  "trace (size_viewport t) = trace t"
  "layout (size_viewport t) = layout t"
  "ctx2d (viewport (size_viewport t)) = initial_context"
  by (simp_all add: size_viewport_def Let_def set_width_def set_height_def set_style_width_def
        set_style_height_def)

lemma size_viewport_fixed_layout:
  assumes "\<And>c. layout t c = (cw, ch)"
  shows "width (viewport (size_viewport t)) = canvas_size 300 (of_int cw * pixel_ratio (win t))"
    and "height (viewport (size_viewport t)) = canvas_size 150 (of_int ch * pixel_ratio (win t))"
    and "style_width (viewport (size_viewport t)) = css_px cw (style_width (viewport t))"
    and "style_height (viewport (size_viewport t)) = css_px ch (style_height (viewport t))"
  by (simp_all add: size_viewport_def Let_def set_width_def set_height_def set_style_width_def
        set_style_height_def clientWidth_def clientHeight_def css_px_def assms)

lemma wasm_main_run:
  fixes sim :: "'e simulation_api" and t :: "'e wasm_page"
  defines "W \<equiv> width (viewport (size_viewport t))"
    and "H \<equiv> height (viewport (size_viewport t))"
  assumes w1: "world sim (simulation t) = (Inr w1, e1)" and w2: "world sim e1 = (Inr w2, e2)"
  shows "\<exists>rest later.
      new_events t (snd (wasm_main sim t)) =
        [Ev_world] @ map (animal_event W H) (animals w1) @
        [Ev_world] @ map (food_event W H) (food w2) @
        [Ev_clearRect 0 0 W H, Ev_step] @ rest
    \<and> surface (ctx2d (viewport (snd (wasm_main sim t)))) =
        map (animal_paint ANIMAL_SIZE ANIMAL_COLOR W H) (animals w1) @
        map (food_paint FOOD_SIZE FOOD_COLOR W H) (food w2) @
        [ClearRect 0 0 W H] @ later"
proof -
  define t0 where "t0 = size_viewport t"
  have size: "width (viewport t0) = W" "height (viewport t0) = H"
    and tr: "trace t0 = trace t"
    by (simp_all add: t0_def W_def H_def)
  have start: "t0 = wasm_mid t0 (simulation t) 0 [] initial_context"
    using wasm_mid_start [of t0] by (simp add: t0_def)
  let ?evs1 = "[Ev_world] @ map (animal_event W H) (animals w1)"
  from draw_animals_returns [OF w1, of t0 0 "[]" initial_context] obtain c1 where
    d1: "draw_animals sim t0 = (Inr (), wasm_mid t0 e1 0 ?evs1 c1)"
    and su1: "surface c1 = map (animal_paint ANIMAL_SIZE ANIMAL_COLOR W H) (animals w1)"
    unfolding size start [symmetric] by (auto simp: initial_context_def)
  let ?evs2 = "?evs1 @ [Ev_world] @ map (food_event W H) (food w2)"
  from draw_food_returns [OF w2, of t0 0 ?evs1 c1] obtain c2 where
    d2: "draw_food sim (wasm_mid t0 e1 0 ?evs1 c1) = (Inr (), wasm_mid t0 e2 0 ?evs2 c2)"
    and su2: "surface c2 = surface c1 @ map (food_paint FOOD_SIZE FOOD_COLOR W H) (food w2)"
    unfolding size by auto
  have main: "wasm_main sim t = wasm_redraw sim (wasm_mid t0 e2 0 ?evs2 c2)"
    using d1 d2 by (simp add: wasm_main_def js_bind_def flip: t0_def)
  have ev: "new_events t (wasm_mid t0 e n evs c) = evs" for e n evs c
    by (simp add: new_events_def tr)
  show ?thesis
  proof (cases rule: wasm_redraw_outcome [where sim = sim and e = e2 and s = t0 and n = 0
        and evs = ?evs2 and c = c2])
    case (step_throws x e3)
    show ?thesis
      apply (rule exI [of _ "[]"], rule exI [of _ "[]"])
      using step_throws(2) apply (simp add: main ev size su2 su1)
      done
  next
    case (world1_throws x e3 e4)
    show ?thesis
      apply (rule exI [of _ "[Ev_world]"], rule exI [of _ "[]"])
      using world1_throws(3) apply (simp add: main ev size su2 su1)
      done
  next
    case (world2_throws x e3 v1 e4 e5 c')
    show ?thesis
      apply (rule exI [of _ "[Ev_world] @ map (animal_event W H) (animals v1) @ [Ev_world]"])
      apply (rule exI [of _ "map (animal_paint ANIMAL_SIZE ANIMAL_COLOR W H) (animals v1)"])
      using world2_throws(4,5) apply (simp add: main ev size su2 su1)
      done
  next
    case (returns e3 v1 e4 v2 e5 c')
    show ?thesis
      apply (rule exI [of _ "[Ev_world] @ map (animal_event W H) (animals v1) @ [Ev_world] @
            map (food_event W H) (food v2) @ [Ev_requestAnimationFrame]"])
      apply (rule exI [of _ "map (animal_paint ANIMAL_SIZE ANIMAL_COLOR W H) (animals v1) @
            map (food_paint FOOD_SIZE FOOD_COLOR W H) (food v2)"])
      using returns(4,5) apply (simp add: main ev size su2 su1)
      done
  qed
qed

lemma wasm_fixtures_sized:
  "width (viewport (size_viewport wasm_page0)) = 800"
  "height (viewport (size_viewport wasm_page0)) = 600"
  "width (viewport (size_viewport wasm_page_fraction)) = 601"
  "height (viewport (size_viewport wasm_page_fraction)) = 451"
proof -
  have a: "layout wasm_page0 c = (400, 300)" for c
    by (simp add: wasm_page0_def)
  have b: "layout wasm_page_fraction c = (401, 301)" for c
    by (simp add: wasm_page_fraction_def)
  have r: "pixel_ratio (win wasm_page0) = 2" "pixel_ratio (win wasm_page_fraction) = 3 / 2"
    by (simp_all add: wasm_page0_def wasm_page_fraction_def window0_def window_fraction_def
          pixel_ratio_def)
  have f: "canvas_size d 800 = 800" "canvas_size d 600 = 600"
      "canvas_size d (1203 / 2) = 601" "canvas_size d (903 / 2) = 451" for d
    using canvas_size_floor [of 800 d] canvas_size_floor [of 600 d]
      canvas_size_floor [of "1203 / 2" d] canvas_size_floor [of "903 / 2" d]
    by simp_all
  show "width (viewport (size_viewport wasm_page0)) = 800"
    "height (viewport (size_viewport wasm_page0)) = 600"
    by (simp_all add: size_viewport_fixed_layout [OF a] r f)
  show "width (viewport (size_viewport wasm_page_fraction)) = 601"
    "height (viewport (size_viewport wasm_page_fraction)) = 451"
    by (simp_all add: size_viewport_fixed_layout [OF b] r f)
qed

lemma wasm_fixtures_engine:
  "simulation wasm_page0 = 0" "simulation wasm_page_fraction = 0"
  by (simp_all add: wasm_page0_def wasm_page_fraction_def)

subsection \<open>A call of the engine that throws\<close>

lemma redraw_throws:
  fixes sim :: "'e simulation_api" and s :: "'e page" and fmt
  defines "s' \<equiv> snd (redraw sim fmt s)"
  defines "evs \<equiv> new_events s (snd (redraw sim fmt s))"
  defines "stops \<equiv> \<lambda>x call. fst (redraw sim fmt s) = Inl x \<and> last evs = call
      \<and> controllerText s' = controllerText s \<and> \<not> list_ex is_setControllerText evs
      \<and> frames_requested s' = frames_requested s \<and> \<not> list_ex is_requestAnimationFrame evs"
  defines "goes_on \<equiv> \<lambda>x call. fst (redraw sim fmt s) = Inl x \<and> last evs = call
      \<and> controllerText s' = controllerText s \<and> \<not> list_ex is_setControllerText evs
      \<and> frames_requested s' = frames_requested s + 1 \<and> list_ex is_requestAnimationFrame evs"
  shows "step sim (simulation s) = (Inl x, e1) \<Longrightarrow> stops x Ev_step"
    and "step sim (simulation s) = (Inr (), e1) \<Longrightarrow>
         prev_generation_statistics sim e1 = (Inl x, e2) \<Longrightarrow> stops x Ev_prev_generation_statistics"
    and "step sim (simulation s) = (Inr (), e1) \<Longrightarrow>
         prev_generation_statistics sim e1 = (Inr st, e2) \<Longrightarrow>
         world sim e2 = (Inl x, e3) \<Longrightarrow> stops x Ev_world"
    and "step sim (simulation s) = (Inr (), e1) \<Longrightarrow>
         prev_generation_statistics sim e1 = (Inr st, e2) \<Longrightarrow>
         world sim e2 = (Inr w1, e3) \<Longrightarrow> world sim e3 = (Inl x, e4) \<Longrightarrow> stops x Ev_world"
    and "step sim (simulation s) = (Inr (), e1) \<Longrightarrow>
         prev_generation_statistics sim e1 = (Inr st, e2) \<Longrightarrow>
         world sim e2 = (Inr w1, e3) \<Longrightarrow> world sim e3 = (Inr w2, e4) \<Longrightarrow>
         generation sim e4 = (Inl x, e5) \<Longrightarrow> goes_on x Ev_generation"
    and "step sim (simulation s) = (Inr (), e1) \<Longrightarrow>
         prev_generation_statistics sim e1 = (Inr st, e2) \<Longrightarrow>
         world sim e2 = (Inr w1, e3) \<Longrightarrow> world sim e3 = (Inr w2, e4) \<Longrightarrow>
         generation sim e4 = (Inr g, e5) \<Longrightarrow> generation_steps sim e5 = (Inl x, e6) \<Longrightarrow>
         goes_on x Ev_generation_steps"
  unfolding stops_def goes_on_def evs_def s'_def
  by (cases sim fmt s rule: redraw_outcome; simp)+

lemma wasm_redraw_throws:
  fixes sim :: "'e simulation_api" and t :: "'e wasm_page"
  defines "t' \<equiv> snd (wasm_redraw sim t)"
  defines "evs \<equiv> new_events t (snd (wasm_redraw sim t))"
  defines "stops \<equiv> \<lambda>y call. fst (wasm_redraw sim t) = Inl y \<and> last evs = call
      \<and> frames_requested t' = frames_requested t \<and> \<not> list_ex is_requestAnimationFrame evs"
  shows "step sim (simulation t) = (Inl y, d1) \<Longrightarrow> stops y Ev_step"
    and "step sim (simulation t) = (Inr (), d1) \<Longrightarrow> world sim d1 = (Inl y, d2) \<Longrightarrow>
         stops y Ev_world"
    and "step sim (simulation t) = (Inr (), d1) \<Longrightarrow> world sim d1 = (Inr v1, d2) \<Longrightarrow>
         world sim d2 = (Inl y, d3) \<Longrightarrow> stops y Ev_world"
  unfolding stops_def evs_def t'_def
  by (cases sim t rule: wasm_redraw_cases; simp)+

section \<open>The claims\<close>

text \<open>
  C9. Drawing a food item paints one filled circle: a single arc from angle 0 to
  \<open>2\<pi>\<close> around the given point, of radius the food size ratio times the width of the
  canvas (0.003 in \<open>SimulationView.fillFood\<close>, 0.005 in \<open>wasm_app\<close>), filled with the
  fixed food colour.
\<close>

theorem fillFood_circle:
  "(ctxt s = Context_of_el \<longrightarrow>
      fst (fillFood x y s) = Inr () \<and>
      surface (ctx2d (el (snd (fillFood x y s)))) =
        surface (ctx2d (el s)) @ [Fill [Arc x y (0.003 * width (el s)) 0 (2 * pi)] ''#b4a794''])
   \<and> fst (wasm_fillFood x y t) = Inr ()
   \<and> surface (ctx2d (viewport (snd (wasm_fillFood x y t)))) =
        surface (ctx2d (viewport t)) @
          [Fill [Arc x y (FOOD_SIZE * width (viewport t)) 0 (2 * pi)] FOOD_COLOR]
   \<and> FOOD_SIZE = 0.005 \<and> FOOD_COLOR = ''green''"
  by (simp add: fillFood_defined wasm_fillFood_eq FOOD_SIZE_def FOOD_COLOR_def)

theorem fillFood_circle_witness:
  "ctxt (page0\<lparr>ctxt := Context_of_el\<rparr>) = Context_of_el
   \<and> surface (ctx2d (el (snd (fillFood 10 20 (page0\<lparr>ctxt := Context_of_el\<rparr>))))) =
       [Fill [Arc 10 20 (0.003 * 300) 0 (2 * pi)] ''#b4a794'']
   \<and> surface (ctx2d (viewport (snd (wasm_fillFood 10 20 wasm_page0)))) =
       [Fill [Arc 10 20 (0.005 * 300) 0 (2 * pi)] ''green'']"
  using fillFood_circle [of "page0\<lparr>ctxt := Context_of_el\<rparr>" 10 20 wasm_page0]
  by (simp add: page0_def wasm_page0_def canvas0_def)

text \<open>
  C1. The loops over the agents and over the food pass to the draw call of each entity
  exactly \<open>(x * width, y * height)\<close> of the canvas (and the agent's rotation as it is),
  for all real \<open>x\<close> and \<open>y\<close>: nothing is clamped or rounded. For the view of
  \<open>part_001\<close> this is stated once \<open>reset\<close> has bound \<open>ctxt\<close>.
\<close>

theorem coordinate_mapping:
  "(ctxt s = Context_of_el \<longrightarrow>
      new_events s (snd (drawAnimals as s)) =
        map (\<lambda>a. Ev_fillAnimal (animal_x a * width (el s)) (animal_y a * height (el s))
                   (animal_rotation a)) as
    \<and> new_events s (snd (drawFood fs s)) =
        map (\<lambda>f. Ev_fillFood (food_x f * width (el s)) (food_y f * height (el s))) fs)
   \<and> new_events t (snd (each_animal as t)) =
        map (\<lambda>a. Ev_fillAnimal (animal_x a * width (viewport t)) (animal_y a * height (viewport t))
                   (animal_rotation a)) as
   \<and> new_events t (snd (each_food fs t)) =
        map (\<lambda>f. Ev_fillFood (food_x f * width (viewport t)) (food_y f * height (viewport t))) fs"
proof -
  have "new_events s (snd (drawAnimals as s)) = map (animal_event (width (el s)) (height (el s))) as"
    if "ctxt s = Context_of_el"
    using drawAnimals_defined [OF that, of as] by (auto intro: new_events_append)
  moreover have "new_events s (snd (drawFood fs s)) = map (food_event (width (el s)) (height (el s))) fs"
    if "ctxt s = Context_of_el"
    using drawFood_defined [OF that, of fs] by (auto intro: new_events_append)
  moreover have "new_events t (snd (each_animal as t)) =
      map (animal_event (width (viewport t)) (height (viewport t))) as"
    using each_animal_eq [of as t] by (auto intro: new_events_append)
  moreover have "new_events t (snd (each_food fs t)) =
      map (food_event (width (viewport t)) (height (viewport t))) fs"
    using each_food_eq [of fs t] by (auto intro: new_events_append)
  ultimately show ?thesis
    unfolding animal_event_def [abs_def] food_event_def [abs_def] by blast
qed

theorem coordinate_mapping_witness:
  "ctxt (page0\<lparr>ctxt := Context_of_el\<rparr>) = Context_of_el
   \<and> new_events (page0\<lparr>ctxt := Context_of_el\<rparr>)
       (snd (drawAnimals (animals stub_world) (page0\<lparr>ctxt := Context_of_el\<rparr>))) =
       [Ev_fillAnimal 150 37.5 0, Ev_fillAnimal 450 (- 37.5) pi]
   \<and> new_events (page0\<lparr>ctxt := Context_of_el\<rparr>)
       (snd (drawFood (food stub_world) (page0\<lparr>ctxt := Context_of_el\<rparr>))) =
       [Ev_fillFood 225 300]
   \<and> new_events wasm_page0 (snd (each_food (food stub_world) wasm_page0)) = [Ev_fillFood 225 300]"
  using coordinate_mapping [where s = "page0\<lparr>ctxt := Context_of_el\<rparr>"
      and as = "animals stub_world" and fs = "food stub_world" and t = wasm_page0]
  by (simp add: page0_def wasm_page0_def canvas0_def stub_world_def)

text \<open>
  C2. Drawing an agent at \<open>(x, y)\<close> with rotation \<open>r\<close> leaves the path head, leg 1,
  leg 2, head, where the head is at angle \<open>r\<close> and the legs are at angles
  \<open>r + 7\<pi>/9\<close> and \<open>r - 7\<pi>/9\<close>, all at distance \<open>size\<close> = ratio times canvas width
  from \<open>(x, y)\<close> (ratio 0.01 in \<open>part_001\<close>, 0.015 in \<open>wasm_app\<close>); with \<open>r = 0\<close> the
  head is \<open>(x + size, y)\<close>. A second call with the same arguments leaves the same path
  and fill style and paints the same shape again: the set of shapes painted on the
  surface is the one after the first call.
\<close>

theorem agent_vertices:
  "(ctxt s = Context_of_el \<longrightarrow>
     (let sz = 0.01 * width (el s);
          c1 = ctx2d (el (snd (fillAnimal x y r s)));
          c2 = ctx2d (el (snd (fillAnimal x y r (snd (fillAnimal x y r s)))))
      in path c1 =
           [MoveTo (x + cos r * sz) (y + sin r * sz),
            LineTo (x + cos (r + 7 * pi / 9) * sz) (y + sin (r + 7 * pi / 9) * sz),
            LineTo (x + cos (r - 7 * pi / 9) * sz) (y + sin (r - 7 * pi / 9) * sz),
            MoveTo (x + cos r * sz) (y + sin r * sz)]
       \<and> hd (path (ctx2d (el (snd (fillAnimal x y 0 s))))) = MoveTo (x + sz) y
       \<and> list_all (\<lambda>(px, py). (px - x)\<^sup>2 + (py - y)\<^sup>2 = sz\<^sup>2) (vertices (path c1))
       \<and> surface c1 = surface (ctx2d (el s)) @ [Fill (path c1) ''#758b9e'']
       \<and> c2 = c1\<lparr>surface := surface c1 @ [Fill (path c1) ''#758b9e'']\<rparr>
       \<and> set (surface c2) = set (surface c1)))
   \<and> (let sz = ANIMAL_SIZE * width (viewport t);
           c1 = ctx2d (viewport (snd (wasm_fillAnimal x y r t)));
           c2 = ctx2d (viewport (snd (wasm_fillAnimal x y r (snd (wasm_fillAnimal x y r t)))))
       in path c1 =
           [MoveTo (x + cos r * sz) (y + sin r * sz),
            LineTo (x + cos (r + 7 * pi / 9) * sz) (y + sin (r + 7 * pi / 9) * sz),
            LineTo (x + cos (r - 7 * pi / 9) * sz) (y + sin (r - 7 * pi / 9) * sz),
            MoveTo (x + cos r * sz) (y + sin r * sz)]
       \<and> hd (path (ctx2d (viewport (snd (wasm_fillAnimal x y 0 t))))) = MoveTo (x + sz) y
       \<and> list_all (\<lambda>(px, py). (px - x)\<^sup>2 + (py - y)\<^sup>2 = sz\<^sup>2) (vertices (path c1))
       \<and> surface c1 = surface (ctx2d (viewport t)) @ [Fill (path c1) ANIMAL_COLOR]
       \<and> c2 = c1\<lparr>surface := surface c1 @ [Fill (path c1) ANIMAL_COLOR]\<rparr>
       \<and> set (surface c2) = set (surface c1))
   \<and> ANIMAL_SIZE = 0.015"
proof -
  let ?sz = "0.01 * width (el s)"
  let ?c1 = "ctx2d (el (snd (fillAnimal x y r s)))"
  let ?c2 = "ctx2d (el (snd (fillAnimal x y r (snd (fillAnimal x y r s)))))"
  have view: "path ?c1 = animal_path ?sz x y r"
      "hd (path (ctx2d (el (snd (fillAnimal x y 0 s))))) = MoveTo (x + ?sz) y"
      "list_all (\<lambda>(px, py). (px - x)\<^sup>2 + (py - y)\<^sup>2 = ?sz\<^sup>2) (vertices (path ?c1))"
      "surface ?c1 = surface (ctx2d (el s)) @ [Fill (path ?c1) ''#758b9e'']"
      "?c2 = ?c1\<lparr>surface := surface ?c1 @ [Fill (path ?c1) ''#758b9e'']\<rparr>"
      "set (surface ?c2) = set (surface ?c1)"
    if c: "ctxt s = Context_of_el"
  proof -
    note one = fillAnimal_ctx [OF c]
    note two = fillAnimal_ctx [OF one(2) [of x y r]]
    show p: "path ?c1 = animal_path ?sz x y r"
      by (simp add: one)
    show "list_all (\<lambda>(px, py). (px - x)\<^sup>2 + (py - y)\<^sup>2 = ?sz\<^sup>2) (vertices (path ?c1))"
      by (simp only: p animal_path_on_circle)
    show "hd (path (ctx2d (el (snd (fillAnimal x y 0 s))))) = MoveTo (x + ?sz) y"
      by (simp add: one animal_path_head)
    show "surface ?c1 = surface (ctx2d (el s)) @ [Fill (path ?c1) ''#758b9e'']"
      by (simp add: one)
    show "?c2 = ?c1\<lparr>surface := surface ?c1 @ [Fill (path ?c1) ''#758b9e'']\<rparr>"
      by (simp add: two one)
    then show "set (surface ?c2) = set (surface ?c1)"
      by (simp add: one)
  qed
  let ?wz = "ANIMAL_SIZE * width (viewport t)"
  let ?d1 = "ctx2d (viewport (snd (wasm_fillAnimal x y r t)))"
  let ?d2 = "ctx2d (viewport (snd (wasm_fillAnimal x y r (snd (wasm_fillAnimal x y r t)))))"
  note one = wasm_fillAnimal_ctx
  have wasm_path: "path ?d1 = animal_path ?wz x y r"
    by (simp add: one)
  have wasm: "hd (path (ctx2d (viewport (snd (wasm_fillAnimal x y 0 t))))) = MoveTo (x + ?wz) y"
      "list_all (\<lambda>(px, py). (px - x)\<^sup>2 + (py - y)\<^sup>2 = ?wz\<^sup>2) (vertices (path ?d1))"
      "surface ?d1 = surface (ctx2d (viewport t)) @ [Fill (path ?d1) ANIMAL_COLOR]"
      "?d2 = ?d1\<lparr>surface := surface ?d1 @ [Fill (path ?d1) ANIMAL_COLOR]\<rparr>"
      "set (surface ?d2) = set (surface ?d1)"
        apply (simp add: one animal_path_head)
       apply (simp only: wasm_path animal_path_on_circle)
      apply (simp add: one)
     apply (simp add: one)
    apply (simp add: one)
    done
  have size: "ANIMAL_SIZE = 0.015"
    by (simp add: ANIMAL_SIZE_def)
  have path_eq: "animal_path sz x y r =
      [MoveTo (x + cos r * sz) (y + sin r * sz),
       LineTo (x + cos (r + 7 * pi / 9) * sz) (y + sin (r + 7 * pi / 9) * sz),
       LineTo (x + cos (r - 7 * pi / 9) * sz) (y + sin (r - 7 * pi / 9) * sz),
       MoveTo (x + cos r * sz) (y + sin r * sz)]" for sz
    by (simp only: animal_path_def)
  show ?thesis
    unfolding Let_def
    using view wasm wasm_path [unfolded path_eq] view(1) [unfolded path_eq] size
    by (intro conjI impI) blast+
qed


theorem agent_vertices_witness:
  "ctxt (page0\<lparr>ctxt := Context_of_el\<rparr>) = Context_of_el
   \<and> hd (path (ctx2d (el (snd (fillAnimal 400 200 0 (page0\<lparr>ctxt := Context_of_el\<rparr>)))))) =
       MoveTo 403 200
   \<and> hd (path (ctx2d (viewport (snd (wasm_fillAnimal 400 200 0 wasm_page0))))) = MoveTo 404.5 200"
  using agent_vertices [where s = "page0\<lparr>ctxt := Context_of_el\<rparr>" and x = 400 and y = 200
      and r = 0 and t = wasm_page0]
  by (simp add: Let_def page0_def wasm_page0_def canvas0_def)

text \<open>
  C3. The path of an agent is built in the order head, leg 1, leg 2, and ends with the
  pen moved back to the head. The one paint a draw call adds is a fill of that path,
  never a stroke; filling closes the subpath head, leg 1, leg 2 back to the head, so
  what is painted is the closed triangle. The colour is the same constant for every
  agent and every state.
\<close>

theorem agent_outline:
  "(ctxt s = Context_of_el \<longrightarrow>
     (let sz = 0.01 * width (el s);
          hx = x + cos r * sz; hy = y + sin r * sz;
          l1x = x + cos (r + 7 * pi / 9) * sz; l1y = y + sin (r + 7 * pi / 9) * sz;
          l2x = x + cos (r - 7 * pi / 9) * sz; l2y = y + sin (r - 7 * pi / 9) * sz;
          c1 = ctx2d (el (snd (fillAnimal x y r s)))
      in path c1 = [MoveTo hx hy, LineTo l1x l1y, LineTo l2x l2y, MoveTo hx hy]
       \<and> fill_outlines (path c1) = [[MoveTo hx hy, LineTo l1x l1y, LineTo l2x l2y, LineTo hx hy]]
       \<and> surface c1 = surface (ctx2d (el s)) @ [Fill (path c1) ''#758b9e'']
       \<and> is_Fill (last (surface c1))
       \<and> fillStyle c1 = ''#758b9e''))
   \<and> (let sz = ANIMAL_SIZE * width (viewport t);
           hx = x + cos r * sz; hy = y + sin r * sz;
           l1x = x + cos (r + 7 * pi / 9) * sz; l1y = y + sin (r + 7 * pi / 9) * sz;
           l2x = x + cos (r - 7 * pi / 9) * sz; l2y = y + sin (r - 7 * pi / 9) * sz;
           c1 = ctx2d (viewport (snd (wasm_fillAnimal x y r t)))
       in path c1 = [MoveTo hx hy, LineTo l1x l1y, LineTo l2x l2y, MoveTo hx hy]
        \<and> fill_outlines (path c1) = [[MoveTo hx hy, LineTo l1x l1y, LineTo l2x l2y, LineTo hx hy]]
        \<and> surface c1 = surface (ctx2d (viewport t)) @ [Fill (path c1) ANIMAL_COLOR]
        \<and> is_Fill (last (surface c1))
        \<and> fillStyle c1 = ANIMAL_COLOR)
   \<and> ANIMAL_COLOR = ''gray''"
proof -
  have view: ?thesis if "ctxt s = Context_of_el"
    unfolding Let_def
    by (simp add: fillAnimal_ctx [OF that] wasm_fillAnimal_ctx fill_outlines_triangle
          animal_path_def ANIMAL_COLOR_def)
  have wasm: ?thesis if "ctxt s \<noteq> Context_of_el"
    unfolding Let_def using that
    by (simp add: wasm_fillAnimal_ctx fill_outlines_triangle animal_path_def ANIMAL_COLOR_def)
  from view wasm show ?thesis by blast
qed

theorem agent_outline_witness:
  "ctxt (page0\<lparr>ctxt := Context_of_el\<rparr>) = Context_of_el
   \<and> fill_outlines (path (ctx2d (el (snd (fillAnimal 400 200 0 (page0\<lparr>ctxt := Context_of_el\<rparr>)))))) =
       [[MoveTo 403 200,
         LineTo (400 + cos (7 * pi / 9) * 3) (200 + sin (7 * pi / 9) * 3),
         LineTo (400 + cos (7 * pi / 9) * 3) (200 - sin (7 * pi / 9) * 3),
         LineTo 403 200]]
   \<and> surface (ctx2d (el (snd (fillAnimal 400 200 0 (page0\<lparr>ctxt := Context_of_el\<rparr>))))) =
       [Fill [MoveTo 403 200,
              LineTo (400 + cos (7 * pi / 9) * 3) (200 + sin (7 * pi / 9) * 3),
              LineTo (400 + cos (7 * pi / 9) * 3) (200 - sin (7 * pi / 9) * 3),
              MoveTo 403 200] ''#758b9e'']"
  using agent_outline [where s = "page0\<lparr>ctxt := Context_of_el\<rparr>" and x = 400 and y = 200
      and r = 0 and t = wasm_page0]
  by (simp add: Let_def page0_def wasm_page0_def canvas0_def fill_outlines_triangle)

text \<open>
  C4, as amended. A frame cycle of \<open>part_000\<close> that returns has made its calls in this
  order: \<open>reset\<close> (which clears), one \<open>step\<close>, \<open>prev_generation_statistics\<close>, \<open>world\<close>
  and one draw call per agent, \<open>world\<close> again and one draw call per food item,
  \<open>requestAnimationFrame\<close>, \<open>generation\<close>, \<open>generation_steps\<close> and, last,
  \<open>setControllerText\<close>. The statistics are queried before the world and presented
  after the next frame has been requested.
\<close>

theorem redraw_order:
  "fst (redraw sim fmt s) = Inr () \<longrightarrow>
     (\<exists>(w1 :: world) (w2 :: world) text.
        new_events s (snd (redraw sim fmt s)) =
          [Ev_reset,
           Ev_clearRect 0 0 (width (el (snd (redraw sim fmt s)))) (width (el (snd (redraw sim fmt s)))),
           Ev_step, Ev_prev_generation_statistics, Ev_world] @
          map (\<lambda>a. Ev_fillAnimal (animal_x a * width (el (snd (redraw sim fmt s))))
                      (animal_y a * height (el (snd (redraw sim fmt s)))) (animal_rotation a))
            (animals w1) @
          [Ev_world] @
          map (\<lambda>f. Ev_fillFood (food_x f * width (el (snd (redraw sim fmt s))))
                      (food_y f * height (el (snd (redraw sim fmt s)))))
            (food w2) @
          [Ev_requestAnimationFrame, Ev_generation, Ev_generation_steps,
           Ev_setControllerText text])"
proof (cases sim fmt s rule: redraw_outcome)
  case (returns e1 st e2 w1 e3 w2 e4 g e5 gs e6 c)
  let ?s' = "snd (redraw sim fmt s)"
  have "new_events s ?s' =
          [Ev_reset, Ev_clearRect 0 0 (width (el ?s')) (width (el ?s')),
           Ev_step, Ev_prev_generation_statistics, Ev_world] @
          map (\<lambda>a. Ev_fillAnimal (animal_x a * width (el ?s')) (animal_y a * height (el ?s'))
                      (animal_rotation a)) (animals w1) @
          [Ev_world] @
          map (\<lambda>f. Ev_fillFood (food_x f * width (el ?s')) (food_y f * height (el ?s')))
            (food w2) @
          [Ev_requestAnimationFrame, Ev_generation, Ev_generation_steps,
           Ev_setControllerText (stats_text fmt g gs st)]"
    by (simp add: returns(7) animal_event_def [abs_def] food_event_def [abs_def])
  then show ?thesis
    by blast
qed simp_all

theorem redraw_order_witness:
  "fst (redraw stub short_decimal page0) = Inr ()
   \<and> (\<exists>text. new_events page0 (snd (redraw stub short_decimal page0)) =
        [Ev_reset, Ev_clearRect 0 0 800 800, Ev_step, Ev_prev_generation_statistics, Ev_world,
         Ev_fillAnimal 400 200 0, Ev_fillAnimal 1200 (- 200) pi, Ev_world, Ev_fillFood 600 1600,
         Ev_requestAnimationFrame, Ev_generation, Ev_generation_steps,
         Ev_setControllerText text])"
proof -
  from stub_redraw [of short_decimal] obtain c msg where
    run: "redraw stub short_decimal page0 =
      (Inr (), (mid_cycle page0 1 1
        [Ev_reset, Ev_clearRect 0 0 800 800, Ev_step, Ev_prev_generation_statistics, Ev_world,
         Ev_fillAnimal 400 200 0, Ev_fillAnimal 1200 (- 200) pi, Ev_world, Ev_fillFood 600 1600,
         Ev_requestAnimationFrame, Ev_generation, Ev_generation_steps,
         Ev_setControllerText msg] c)\<lparr>controllerText := replace_newlines msg\<rparr>)"
    by blast
  then have ok: "fst (redraw stub short_decimal page0) = Inr ()"
    by simp
  from redraw_order [of stub short_decimal page0] ok run show ?thesis
    by simp
qed

text \<open>
  C4, as stated, fails: on the stub engine the text is presented after the request for
  the next frame, not before it.
\<close>

theorem redraw_order_counterexample:
  "\<not> precedes is_setControllerText is_requestAnimationFrame
       (new_events page0 (snd (redraw stub short_decimal page0)))"
proof -
  from stub_redraw [of short_decimal] obtain c msg where
    "redraw stub short_decimal page0 =
      (Inr (), (mid_cycle page0 1 1
        [Ev_reset, Ev_clearRect 0 0 800 800, Ev_step, Ev_prev_generation_statistics, Ev_world,
         Ev_fillAnimal 400 200 0, Ev_fillAnimal 1200 (- 200) pi, Ev_world, Ev_fillFood 600 1600,
         Ev_requestAnimationFrame, Ev_generation, Ev_generation_steps,
         Ev_setControllerText msg] c)\<lparr>controllerText := replace_newlines msg\<rparr>)"
    by blast
  then show ?thesis
    by simp
qed

text \<open>
  C5. Every frame cycle calls \<open>step\<close> exactly once, whatever its outcome. When the
  two \<open>world\<close> queries of the cycle return \<open>w1\<close> and \<open>w2\<close>, the cycle makes as many
  agent draw calls as \<open>w1\<close> has animals and as many food draw calls as \<open>w2\<close> has food.
  This holds for \<open>redraw\<close> of \<open>part_000\<close> and of \<open>wasm_app\<close>.
\<close>

theorem frame_cycle_counts:
  "length (filter is_step (new_events s (snd (redraw sim fmt s)))) = 1
   \<and> (step sim (simulation s) = (Inr (), e1) \<and> prev_generation_statistics sim e1 = (Inr st, e2)
        \<and> world sim e2 = (Inr w1, e3) \<and> world sim e3 = (Inr w2, e4) \<longrightarrow>
      length (filter is_fillAnimal (new_events s (snd (redraw sim fmt s)))) = length (animals w1)
      \<and> length (filter is_fillFood (new_events s (snd (redraw sim fmt s)))) = length (food w2))
   \<and> length (filter is_step (new_events t (snd (wasm_redraw sim' t)))) = 1
   \<and> (step sim' (simulation t) = (Inr (), d1) \<and> world sim' d1 = (Inr v1, d2)
        \<and> world sim' d2 = (Inr v2, d3) \<longrightarrow>
      length (filter is_fillAnimal (new_events t (snd (wasm_redraw sim' t)))) = length (animals v1)
      \<and> length (filter is_fillFood (new_events t (snd (wasm_redraw sim' t)))) = length (food v2))"
proof (intro conjI impI; (elim conjE)?)
  show "length (filter is_step (new_events s (snd (redraw sim fmt s)))) = 1"
    by (rule redraw_counts(1))
  show "length (filter is_step (new_events t (snd (wasm_redraw sim' t)))) = 1"
    by (rule wasm_redraw_counts(1))
next
  assume "step sim (simulation s) = (Inr (), e1)" "prev_generation_statistics sim e1 = (Inr st, e2)"
    "world sim e2 = (Inr w1, e3)" "world sim e3 = (Inr w2, e4)"
  from redraw_counts(2) [OF this, of fmt]
  show "length (filter is_fillAnimal (new_events s (snd (redraw sim fmt s)))) = length (animals w1)"
    and "length (filter is_fillFood (new_events s (snd (redraw sim fmt s)))) = length (food w2)"
    by simp_all
next
  assume "step sim' (simulation t) = (Inr (), d1)" "world sim' d1 = (Inr v1, d2)"
    "world sim' d2 = (Inr v2, d3)"
  from wasm_redraw_counts(2) [OF this]
  show "length (filter is_fillAnimal (new_events t (snd (wasm_redraw sim' t)))) = length (animals v1)"
    and "length (filter is_fillFood (new_events t (snd (wasm_redraw sim' t)))) = length (food v2)"
    by simp_all
qed


theorem frame_cycle_counts_witness:
  "step stub (simulation page0) = (Inr (), 1)
   \<and> world stub 1 = (Inr stub_world, 1)
   \<and> length (filter is_step (new_events page0 (snd (redraw stub short_decimal page0)))) = 1
   \<and> length (filter is_fillAnimal (new_events page0 (snd (redraw stub short_decimal page0)))) = 2
   \<and> length (filter is_fillFood (new_events page0 (snd (redraw stub short_decimal page0)))) = 1
   \<and> length (filter is_step (new_events wasm_page0 (snd (wasm_redraw stub wasm_page0)))) = 1
   \<and> length (filter is_fillAnimal (new_events wasm_page0 (snd (wasm_redraw stub wasm_page0)))) = 2
   \<and> length (filter is_fillFood (new_events wasm_page0 (snd (wasm_redraw stub wasm_page0)))) = 1"
  using frame_cycle_counts [where s = page0 and sim = stub and fmt = short_decimal and ?e1.0 = 1
      and ?e2.0 = 1 and ?e3.0 = 1 and ?e4.0 = 1 and ?w1.0 = stub_world and ?w2.0 = stub_world
      and st = "Some \<lparr>max_fitness = 1, min_fitness = 0.2, mean_fitness = 0.5, std_fitness = 0.1\<rparr>"
      and t = wasm_page0 and sim' = stub and ?d1.0 = 1 and ?d2.0 = 1 and ?d3.0 = 1 and ?v1.0 = stub_world
      and ?v2.0 = stub_world]
  by (simp add: stub_calls page0_def wasm_page0_def stub_world_def)

text \<open>
  C6, as amended. A frame cycle throws as soon as a call of the engine throws, with the
  error of that call, and the failing call is the last call of its trace. When \<open>step\<close>
  throws, or \<open>step\<close> returns and \<open>prev_generation_statistics\<close> throws, or these return and
  the first or the second \<open>world\<close> query throws, no frame has been requested and no
  statistics are shown: the text surface is as it was. When all of these return and
  \<open>generation\<close> throws, or \<open>generation\<close> returns and \<open>generation_steps\<close> throws (\<open>part_000\<close>
  only), no statistics are shown either, but the next frame has already been requested.
  In \<open>wasm_app\<close>, when \<open>step\<close> or either \<open>world\<close> query throws, the cycle throws and no
  frame has been requested. Conversely, a cycle that throws has thrown in one of these
  calls.
\<close>

theorem engine_failure:
  "(let s' = snd (redraw sim fmt s);
        evs = new_events s s';
        stops = (\<lambda>call. fst (redraw sim fmt s) = Inl x \<and> last evs = call
          \<and> controllerText s' = controllerText s \<and> \<not> list_ex is_setControllerText evs
          \<and> frames_requested s' = frames_requested s
          \<and> \<not> list_ex is_requestAnimationFrame evs);
        goes_on = (\<lambda>call. fst (redraw sim fmt s) = Inl x \<and> last evs = call
          \<and> controllerText s' = controllerText s \<and> \<not> list_ex is_setControllerText evs
          \<and> frames_requested s' = frames_requested s + 1
          \<and> list_ex is_requestAnimationFrame evs)
    in (step sim (simulation s) = (Inl x, e1) \<longrightarrow> stops Ev_step)
     \<and> (step sim (simulation s) = (Inr (), e1)
          \<and> prev_generation_statistics sim e1 = (Inl x, e2) \<longrightarrow>
        stops Ev_prev_generation_statistics)
     \<and> (step sim (simulation s) = (Inr (), e1)
          \<and> prev_generation_statistics sim e1 = (Inr st, e2)
          \<and> world sim e2 = (Inl x, e3) \<longrightarrow>
        stops Ev_world)
     \<and> (step sim (simulation s) = (Inr (), e1)
          \<and> prev_generation_statistics sim e1 = (Inr st, e2)
          \<and> world sim e2 = (Inr w1, e3) \<and> world sim e3 = (Inl x, e4) \<longrightarrow>
        stops Ev_world)
     \<and> (step sim (simulation s) = (Inr (), e1)
          \<and> prev_generation_statistics sim e1 = (Inr st, e2)
          \<and> world sim e2 = (Inr w1, e3) \<and> world sim e3 = (Inr w2, e4)
          \<and> generation sim e4 = (Inl x, e5) \<longrightarrow>
        goes_on Ev_generation)
     \<and> (step sim (simulation s) = (Inr (), e1)
          \<and> prev_generation_statistics sim e1 = (Inr st, e2)
          \<and> world sim e2 = (Inr w1, e3) \<and> world sim e3 = (Inr w2, e4)
          \<and> generation sim e4 = (Inr g, e5) \<and> generation_steps sim e5 = (Inl x, e6) \<longrightarrow>
        goes_on Ev_generation_steps)
     \<and> (fst (redraw sim fmt s) = Inl x \<longrightarrow>
        controllerText s' = controllerText s
        \<and> \<not> list_ex is_setControllerText evs
        \<and> last evs \<in> {Ev_step, Ev_prev_generation_statistics, Ev_world, Ev_generation,
             Ev_generation_steps}
        \<and> (if last evs \<in> {Ev_generation, Ev_generation_steps}
            then frames_requested s' = frames_requested s + 1
              \<and> list_ex is_requestAnimationFrame evs
            else frames_requested s' = frames_requested s
              \<and> \<not> list_ex is_requestAnimationFrame evs)))
   \<and> (let t' = snd (wasm_redraw sim' t);
            evs = new_events t t';
            stops = (\<lambda>call. fst (wasm_redraw sim' t) = Inl y \<and> last evs = call
              \<and> frames_requested t' = frames_requested t
              \<and> \<not> list_ex is_requestAnimationFrame evs)
        in (step sim' (simulation t) = (Inl y, d1) \<longrightarrow> stops Ev_step)
         \<and> (step sim' (simulation t) = (Inr (), d1) \<and> world sim' d1 = (Inl y, d2) \<longrightarrow>
            stops Ev_world)
         \<and> (step sim' (simulation t) = (Inr (), d1) \<and> world sim' d1 = (Inr v1, d2)
              \<and> world sim' d2 = (Inl y, d3) \<longrightarrow>
            stops Ev_world)
         \<and> (fst (wasm_redraw sim' t) = Inl y \<longrightarrow>
            last evs \<in> {Ev_step, Ev_world}
            \<and> frames_requested t' = frames_requested t
            \<and> \<not> list_ex is_requestAnimationFrame evs))"
proof -
  let ?s' = "snd (redraw sim fmt s)"
  let ?evs = "new_events s ?s'"
  have page: "fst (redraw sim fmt s) = Inl x \<longrightarrow>
        controllerText ?s' = controllerText s
        \<and> \<not> list_ex is_setControllerText ?evs
        \<and> last ?evs \<in> {Ev_step, Ev_prev_generation_statistics, Ev_world, Ev_generation,
             Ev_generation_steps}
        \<and> (if last ?evs \<in> {Ev_generation, Ev_generation_steps}
            then frames_requested ?s' = frames_requested s + 1
              \<and> list_ex is_requestAnimationFrame ?evs
            else frames_requested ?s' = frames_requested s
              \<and> \<not> list_ex is_requestAnimationFrame ?evs)"
    by (cases sim fmt s rule: redraw_outcome) simp_all
  let ?t' = "snd (wasm_redraw sim' t)"
  let ?tevs = "new_events t ?t'"
  have wasm: "fst (wasm_redraw sim' t) = Inl y \<longrightarrow>
        last ?tevs \<in> {Ev_step, Ev_world}
        \<and> frames_requested ?t' = frames_requested t
        \<and> \<not> list_ex is_requestAnimationFrame ?tevs"
    by (cases sim' t rule: wasm_redraw_cases) simp_all
  note p = redraw_throws [where sim = sim and s = s and fmt = fmt and x = x]
  note w = wasm_redraw_throws [where sim = sim' and t = t and y = y]
  show ?thesis
    unfolding Let_def
  proof (intro conjI impI; (elim conjE)?)
    assume "step sim (simulation s) = (Inl x, e1)"
    from p(1) [OF this]
    show "fst (redraw sim fmt s) = Inl x" "last ?evs = Ev_step"
      "controllerText ?s' = controllerText s" "\<not> list_ex is_setControllerText ?evs"
      "frames_requested ?s' = frames_requested s" "\<not> list_ex is_requestAnimationFrame ?evs"
      by simp_all
  next
    assume "step sim (simulation s) = (Inr (), e1)"
      "prev_generation_statistics sim e1 = (Inl x, e2)"
    from p(2) [OF this]
    show "fst (redraw sim fmt s) = Inl x" "last ?evs = Ev_prev_generation_statistics"
      "controllerText ?s' = controllerText s" "\<not> list_ex is_setControllerText ?evs"
      "frames_requested ?s' = frames_requested s" "\<not> list_ex is_requestAnimationFrame ?evs"
      by simp_all
  next
    assume "step sim (simulation s) = (Inr (), e1)"
      "prev_generation_statistics sim e1 = (Inr st, e2)" "world sim e2 = (Inl x, e3)"
    from p(3) [OF this]
    show "fst (redraw sim fmt s) = Inl x" "last ?evs = Ev_world"
      "controllerText ?s' = controllerText s" "\<not> list_ex is_setControllerText ?evs"
      "frames_requested ?s' = frames_requested s" "\<not> list_ex is_requestAnimationFrame ?evs"
      by simp_all
  next
    assume "step sim (simulation s) = (Inr (), e1)"
      "prev_generation_statistics sim e1 = (Inr st, e2)" "world sim e2 = (Inr w1, e3)"
      "world sim e3 = (Inl x, e4)"
    from p(4) [OF this]
    show "fst (redraw sim fmt s) = Inl x" "last ?evs = Ev_world"
      "controllerText ?s' = controllerText s" "\<not> list_ex is_setControllerText ?evs"
      "frames_requested ?s' = frames_requested s" "\<not> list_ex is_requestAnimationFrame ?evs"
      by simp_all
  next
    assume "step sim (simulation s) = (Inr (), e1)"
      "prev_generation_statistics sim e1 = (Inr st, e2)" "world sim e2 = (Inr w1, e3)"
      "world sim e3 = (Inr w2, e4)" "generation sim e4 = (Inl x, e5)"
    from p(5) [OF this]
    show "fst (redraw sim fmt s) = Inl x" "last ?evs = Ev_generation"
      "controllerText ?s' = controllerText s" "\<not> list_ex is_setControllerText ?evs"
      "frames_requested ?s' = frames_requested s + 1" "list_ex is_requestAnimationFrame ?evs"
      by simp_all
  next
    assume "step sim (simulation s) = (Inr (), e1)"
      "prev_generation_statistics sim e1 = (Inr st, e2)" "world sim e2 = (Inr w1, e3)"
      "world sim e3 = (Inr w2, e4)" "generation sim e4 = (Inr g, e5)"
      "generation_steps sim e5 = (Inl x, e6)"
    from p(6) [OF this]
    show "fst (redraw sim fmt s) = Inl x" "last ?evs = Ev_generation_steps"
      "controllerText ?s' = controllerText s" "\<not> list_ex is_setControllerText ?evs"
      "frames_requested ?s' = frames_requested s + 1" "list_ex is_requestAnimationFrame ?evs"
      by simp_all
  next
    assume a: "fst (redraw sim fmt s) = Inl x"
    from page a
    show "controllerText ?s' = controllerText s" "\<not> list_ex is_setControllerText ?evs"
      "last ?evs \<in> {Ev_step, Ev_prev_generation_statistics, Ev_world, Ev_generation,
             Ev_generation_steps}"
      "if last ?evs \<in> {Ev_generation, Ev_generation_steps}
            then frames_requested ?s' = frames_requested s + 1
              \<and> list_ex is_requestAnimationFrame ?evs
            else frames_requested ?s' = frames_requested s
              \<and> \<not> list_ex is_requestAnimationFrame ?evs"
      by blast+
  next
    assume "step sim' (simulation t) = (Inl y, d1)"
    from w(1) [OF this]
    show "fst (wasm_redraw sim' t) = Inl y" "last ?tevs = Ev_step"
      "frames_requested ?t' = frames_requested t" "\<not> list_ex is_requestAnimationFrame ?tevs"
      by simp_all
  next
    assume "step sim' (simulation t) = (Inr (), d1)" "world sim' d1 = (Inl y, d2)"
    from w(2) [OF this]
    show "fst (wasm_redraw sim' t) = Inl y" "last ?tevs = Ev_world"
      "frames_requested ?t' = frames_requested t" "\<not> list_ex is_requestAnimationFrame ?tevs"
      by simp_all
  next
    assume "step sim' (simulation t) = (Inr (), d1)" "world sim' d1 = (Inr v1, d2)"
      "world sim' d2 = (Inl y, d3)"
    from w(3) [OF this]
    show "fst (wasm_redraw sim' t) = Inl y" "last ?tevs = Ev_world"
      "frames_requested ?t' = frames_requested t" "\<not> list_ex is_requestAnimationFrame ?tevs"
      by simp_all
  next
    assume a: "fst (wasm_redraw sim' t) = Inl y"
    from wasm a
    show "last ?tevs \<in> {Ev_step, Ev_world}"
      "frames_requested ?t' = frames_requested t" "\<not> list_ex is_requestAnimationFrame ?tevs"
      by blast+
  qed
qed

theorem engine_failure_witness:
  "(step stub_step_throws (simulation page0) = (Inl (EngineError ''step''), 0)
      \<and> fst (redraw stub_step_throws short_decimal page0) = Inl (EngineError ''step'')
      \<and> last (new_events page0 (snd (redraw stub_step_throws short_decimal page0))) = Ev_step
      \<and> controllerText (snd (redraw stub_step_throws short_decimal page0)) = controllerText page0
      \<and> frames_requested (snd (redraw stub_step_throws short_decimal page0)) = frames_requested page0)
   \<and> (step stub_statistics_throws (simulation page0) = (Inr (), 1) \<and> prev_generation_statistics stub_statistics_throws 1 = (Inl (EngineError ''statistics''), 1)
      \<and> fst (redraw stub_statistics_throws short_decimal page0) = Inl (EngineError ''statistics'')
      \<and> last (new_events page0 (snd (redraw stub_statistics_throws short_decimal page0))) = Ev_prev_generation_statistics
      \<and> controllerText (snd (redraw stub_statistics_throws short_decimal page0)) = controllerText page0
      \<and> frames_requested (snd (redraw stub_statistics_throws short_decimal page0)) = frames_requested page0)
   \<and> (step stub_world_throws (simulation page0) = (Inr (), 1) \<and> prev_generation_statistics stub_world_throws 1 = (Inr (Some \<lparr>max_fitness = 1, min_fitness = 0.2, mean_fitness = 0.5, std_fitness = 0.1\<rparr>), 1) \<and> world stub_world_throws 1 = (Inl (EngineError ''world''), 1)
      \<and> fst (redraw stub_world_throws short_decimal page0) = Inl (EngineError ''world'')
      \<and> last (new_events page0 (snd (redraw stub_world_throws short_decimal page0))) = Ev_world
      \<and> controllerText (snd (redraw stub_world_throws short_decimal page0)) = controllerText page0
      \<and> frames_requested (snd (redraw stub_world_throws short_decimal page0)) = frames_requested page0)
   \<and> (step stub_second_world_throws (simulation page0) = (Inr (), 1) \<and> prev_generation_statistics stub_second_world_throws 1 = (Inr (Some \<lparr>max_fitness = 1, min_fitness = 0.2, mean_fitness = 0.5, std_fitness = 0.1\<rparr>), 1) \<and> world stub_second_world_throws 1 = (Inr stub_world, 2) \<and> world stub_second_world_throws 2 = (Inl (EngineError ''world''), 2)
      \<and> fst (redraw stub_second_world_throws short_decimal page0) = Inl (EngineError ''world'')
      \<and> last (new_events page0 (snd (redraw stub_second_world_throws short_decimal page0))) = Ev_world
      \<and> controllerText (snd (redraw stub_second_world_throws short_decimal page0)) = controllerText page0
      \<and> frames_requested (snd (redraw stub_second_world_throws short_decimal page0)) = frames_requested page0)
   \<and> (step stub_generation_throws (simulation page0) = (Inr (), 1) \<and> prev_generation_statistics stub_generation_throws 1 = (Inr (Some \<lparr>max_fitness = 1, min_fitness = 0.2, mean_fitness = 0.5, std_fitness = 0.1\<rparr>), 1) \<and> world stub_generation_throws 1 = (Inr stub_world, 1) \<and> generation stub_generation_throws 1 = (Inl (EngineError ''generation''), 1)
      \<and> fst (redraw stub_generation_throws short_decimal page0) = Inl (EngineError ''generation'')
      \<and> last (new_events page0 (snd (redraw stub_generation_throws short_decimal page0))) = Ev_generation
      \<and> controllerText (snd (redraw stub_generation_throws short_decimal page0)) = controllerText page0
      \<and> frames_requested (snd (redraw stub_generation_throws short_decimal page0)) = frames_requested page0 + 1)
   \<and> (step stub_generation_steps_throws (simulation page0) = (Inr (), 1) \<and> prev_generation_statistics stub_generation_steps_throws 1 = (Inr (Some \<lparr>max_fitness = 1, min_fitness = 0.2, mean_fitness = 0.5, std_fitness = 0.1\<rparr>), 1) \<and> world stub_generation_steps_throws 1 = (Inr stub_world, 1) \<and> generation stub_generation_steps_throws 1 = (Inr 3, 1) \<and> generation_steps stub_generation_steps_throws 1 = (Inl (EngineError ''generation_steps''), 1)
      \<and> fst (redraw stub_generation_steps_throws short_decimal page0) = Inl (EngineError ''generation_steps'')
      \<and> last (new_events page0 (snd (redraw stub_generation_steps_throws short_decimal page0))) = Ev_generation_steps
      \<and> controllerText (snd (redraw stub_generation_steps_throws short_decimal page0)) = controllerText page0
      \<and> frames_requested (snd (redraw stub_generation_steps_throws short_decimal page0)) = frames_requested page0 + 1)
   \<and> (step stub_step_throws (simulation wasm_page0) = (Inl (EngineError ''step''), 0)
      \<and> fst (wasm_redraw stub_step_throws wasm_page0) = Inl (EngineError ''step'')
      \<and> last (new_events wasm_page0 (snd (wasm_redraw stub_step_throws wasm_page0))) = Ev_step
      \<and> frames_requested (snd (wasm_redraw stub_step_throws wasm_page0)) = frames_requested wasm_page0)
   \<and> (step stub_world_throws (simulation wasm_page0) = (Inr (), 1) \<and> world stub_world_throws 1 = (Inl (EngineError ''world''), 1)
      \<and> fst (wasm_redraw stub_world_throws wasm_page0) = Inl (EngineError ''world'')
      \<and> last (new_events wasm_page0 (snd (wasm_redraw stub_world_throws wasm_page0))) = Ev_world
      \<and> frames_requested (snd (wasm_redraw stub_world_throws wasm_page0)) = frames_requested wasm_page0)
   \<and> (step stub_second_world_throws (simulation wasm_page0) = (Inr (), 1) \<and> world stub_second_world_throws 1 = (Inr stub_world, 2) \<and> world stub_second_world_throws 2 = (Inl (EngineError ''world''), 2)
      \<and> fst (wasm_redraw stub_second_world_throws wasm_page0) = Inl (EngineError ''world'')
      \<and> last (new_events wasm_page0 (snd (wasm_redraw stub_second_world_throws wasm_page0))) = Ev_world
      \<and> frames_requested (snd (wasm_redraw stub_second_world_throws wasm_page0)) = frames_requested wasm_page0)"
proof -
  have ha: "step stub_step_throws (simulation page0) = (Inl (EngineError ''step''), 0)"
    by (simp_all add: stub_step_throws_def stub_def page0_def)
  have hb: "step stub_statistics_throws (simulation page0) = (Inr (), 1)" "prev_generation_statistics stub_statistics_throws 1 = (Inl (EngineError ''statistics''), 1)"
    by (simp_all add: stub_statistics_throws_def stub_def page0_def)
  have hc: "step stub_world_throws (simulation page0) = (Inr (), 1)" "prev_generation_statistics stub_world_throws 1 = (Inr (Some \<lparr>max_fitness = 1, min_fitness = 0.2, mean_fitness = 0.5, std_fitness = 0.1\<rparr>), 1)" "world stub_world_throws 1 = (Inl (EngineError ''world''), 1)"
    by (simp_all add: stub_world_throws_def stub_def page0_def)
  have hd: "step stub_second_world_throws (simulation page0) = (Inr (), 1)" "prev_generation_statistics stub_second_world_throws 1 = (Inr (Some \<lparr>max_fitness = 1, min_fitness = 0.2, mean_fitness = 0.5, std_fitness = 0.1\<rparr>), 1)" "world stub_second_world_throws 1 = (Inr stub_world, 2)" "world stub_second_world_throws 2 = (Inl (EngineError ''world''), 2)"
    by (simp_all add: stub_second_world_throws_def stub_def page0_def)
  have he: "step stub_generation_throws (simulation page0) = (Inr (), 1)" "prev_generation_statistics stub_generation_throws 1 = (Inr (Some \<lparr>max_fitness = 1, min_fitness = 0.2, mean_fitness = 0.5, std_fitness = 0.1\<rparr>), 1)" "world stub_generation_throws 1 = (Inr stub_world, 1)" "generation stub_generation_throws 1 = (Inl (EngineError ''generation''), 1)"
    by (simp_all add: stub_generation_throws_def stub_def page0_def)
  have hf: "step stub_generation_steps_throws (simulation page0) = (Inr (), 1)" "prev_generation_statistics stub_generation_steps_throws 1 = (Inr (Some \<lparr>max_fitness = 1, min_fitness = 0.2, mean_fitness = 0.5, std_fitness = 0.1\<rparr>), 1)" "world stub_generation_steps_throws 1 = (Inr stub_world, 1)" "generation stub_generation_steps_throws 1 = (Inr 3, 1)" "generation_steps stub_generation_steps_throws 1 = (Inl (EngineError ''generation_steps''), 1)"
    by (simp_all add: stub_generation_steps_throws_def stub_def page0_def)
  have hu: "step stub_step_throws (simulation wasm_page0) = (Inl (EngineError ''step''), 0)"
    by (simp_all add: stub_step_throws_def stub_def wasm_page0_def)
  have hv: "step stub_world_throws (simulation wasm_page0) = (Inr (), 1)" "world stub_world_throws 1 = (Inl (EngineError ''world''), 1)"
    by (simp_all add: stub_world_throws_def stub_def wasm_page0_def)
  have hw: "step stub_second_world_throws (simulation wasm_page0) = (Inr (), 1)" "world stub_second_world_throws 1 = (Inr stub_world, 2)" "world stub_second_world_throws 2 = (Inl (EngineError ''world''), 2)"
    by (simp_all add: stub_second_world_throws_def stub_def wasm_page0_def)
  have a: "(step stub_step_throws (simulation page0) = (Inl (EngineError ''step''), 0)
      \<and> fst (redraw stub_step_throws short_decimal page0) = Inl (EngineError ''step'')
      \<and> last (new_events page0 (snd (redraw stub_step_throws short_decimal page0))) = Ev_step
      \<and> controllerText (snd (redraw stub_step_throws short_decimal page0)) = controllerText page0
      \<and> frames_requested (snd (redraw stub_step_throws short_decimal page0)) = frames_requested page0)"
    using engine_failure [where sim = stub_step_throws
      and fmt = short_decimal
      and s = page0
      and x = "EngineError ''step''"
      and ?e1.0 = 0
      and ?e2.0 = 0
      and ?e3.0 = 0
      and ?e4.0 = 0
      and ?e5.0 = 0
      and ?e6.0 = 0
      and st = "None"
      and ?w1.0 = stub_world
      and ?w2.0 = stub_world
      and g = 0
      and sim' = stub_step_throws
      and t = wasm_page0
      and y = "EngineError ''step''"
      and ?d1.0 = 0
      and ?d2.0 = 0
      and ?d3.0 = 0
      and ?v1.0 = stub_world] ha hu
    by (simp add: Let_def)
  have b: "(step stub_statistics_throws (simulation page0) = (Inr (), 1) \<and> prev_generation_statistics stub_statistics_throws 1 = (Inl (EngineError ''statistics''), 1)
      \<and> fst (redraw stub_statistics_throws short_decimal page0) = Inl (EngineError ''statistics'')
      \<and> last (new_events page0 (snd (redraw stub_statistics_throws short_decimal page0))) = Ev_prev_generation_statistics
      \<and> controllerText (snd (redraw stub_statistics_throws short_decimal page0)) = controllerText page0
      \<and> frames_requested (snd (redraw stub_statistics_throws short_decimal page0)) = frames_requested page0)"
    using engine_failure [where sim = stub_statistics_throws
      and fmt = short_decimal
      and s = page0
      and x = "EngineError ''statistics''"
      and ?e1.0 = 1
      and ?e2.0 = 1
      and ?e3.0 = 0
      and ?e4.0 = 0
      and ?e5.0 = 0
      and ?e6.0 = 0
      and st = "None"
      and ?w1.0 = stub_world
      and ?w2.0 = stub_world
      and g = 0
      and sim' = stub_world_throws
      and t = wasm_page0
      and y = "EngineError ''world''"
      and ?d1.0 = 1
      and ?d2.0 = 1
      and ?d3.0 = 0
      and ?v1.0 = stub_world] hb hv
    by (simp add: Let_def)
  have c: "(step stub_world_throws (simulation page0) = (Inr (), 1) \<and> prev_generation_statistics stub_world_throws 1 = (Inr (Some \<lparr>max_fitness = 1, min_fitness = 0.2, mean_fitness = 0.5, std_fitness = 0.1\<rparr>), 1) \<and> world stub_world_throws 1 = (Inl (EngineError ''world''), 1)
      \<and> fst (redraw stub_world_throws short_decimal page0) = Inl (EngineError ''world'')
      \<and> last (new_events page0 (snd (redraw stub_world_throws short_decimal page0))) = Ev_world
      \<and> controllerText (snd (redraw stub_world_throws short_decimal page0)) = controllerText page0
      \<and> frames_requested (snd (redraw stub_world_throws short_decimal page0)) = frames_requested page0)"
    using engine_failure [where sim = stub_world_throws
      and fmt = short_decimal
      and s = page0
      and x = "EngineError ''world''"
      and ?e1.0 = 1
      and ?e2.0 = 1
      and ?e3.0 = 1
      and ?e4.0 = 0
      and ?e5.0 = 0
      and ?e6.0 = 0
      and st = "Some \<lparr>max_fitness = 1, min_fitness = 0.2, mean_fitness = 0.5, std_fitness = 0.1\<rparr>"
      and ?w1.0 = stub_world
      and ?w2.0 = stub_world
      and g = 0
      and sim' = stub_second_world_throws
      and t = wasm_page0
      and y = "EngineError ''world''"
      and ?d1.0 = 1
      and ?d2.0 = 2
      and ?d3.0 = 2
      and ?v1.0 = stub_world] hc hw
    by (simp add: Let_def)
  have d: "(step stub_second_world_throws (simulation page0) = (Inr (), 1) \<and> prev_generation_statistics stub_second_world_throws 1 = (Inr (Some \<lparr>max_fitness = 1, min_fitness = 0.2, mean_fitness = 0.5, std_fitness = 0.1\<rparr>), 1) \<and> world stub_second_world_throws 1 = (Inr stub_world, 2) \<and> world stub_second_world_throws 2 = (Inl (EngineError ''world''), 2)
      \<and> fst (redraw stub_second_world_throws short_decimal page0) = Inl (EngineError ''world'')
      \<and> last (new_events page0 (snd (redraw stub_second_world_throws short_decimal page0))) = Ev_world
      \<and> controllerText (snd (redraw stub_second_world_throws short_decimal page0)) = controllerText page0
      \<and> frames_requested (snd (redraw stub_second_world_throws short_decimal page0)) = frames_requested page0)"
    using engine_failure [where sim = stub_second_world_throws
      and fmt = short_decimal
      and s = page0
      and x = "EngineError ''world''"
      and ?e1.0 = 1
      and ?e2.0 = 1
      and ?e3.0 = 2
      and ?e4.0 = 2
      and ?e5.0 = 0
      and ?e6.0 = 0
      and st = "Some \<lparr>max_fitness = 1, min_fitness = 0.2, mean_fitness = 0.5, std_fitness = 0.1\<rparr>"
      and ?w1.0 = stub_world
      and ?w2.0 = stub_world
      and g = 0
      and sim' = stub_step_throws
      and t = wasm_page0
      and y = "EngineError ''step''"
      and ?d1.0 = 0
      and ?d2.0 = 0
      and ?d3.0 = 0
      and ?v1.0 = stub_world] hd hu
    by (simp add: Let_def)
  have e: "(step stub_generation_throws (simulation page0) = (Inr (), 1) \<and> prev_generation_statistics stub_generation_throws 1 = (Inr (Some \<lparr>max_fitness = 1, min_fitness = 0.2, mean_fitness = 0.5, std_fitness = 0.1\<rparr>), 1) \<and> world stub_generation_throws 1 = (Inr stub_world, 1) \<and> generation stub_generation_throws 1 = (Inl (EngineError ''generation''), 1)
      \<and> fst (redraw stub_generation_throws short_decimal page0) = Inl (EngineError ''generation'')
      \<and> last (new_events page0 (snd (redraw stub_generation_throws short_decimal page0))) = Ev_generation
      \<and> controllerText (snd (redraw stub_generation_throws short_decimal page0)) = controllerText page0
      \<and> frames_requested (snd (redraw stub_generation_throws short_decimal page0)) = frames_requested page0 + 1)"
    using engine_failure [where sim = stub_generation_throws
      and fmt = short_decimal
      and s = page0
      and x = "EngineError ''generation''"
      and ?e1.0 = 1
      and ?e2.0 = 1
      and ?e3.0 = 1
      and ?e4.0 = 1
      and ?e5.0 = 1
      and ?e6.0 = 0
      and st = "Some \<lparr>max_fitness = 1, min_fitness = 0.2, mean_fitness = 0.5, std_fitness = 0.1\<rparr>"
      and ?w1.0 = stub_world
      and ?w2.0 = stub_world
      and g = 0
      and sim' = stub_step_throws
      and t = wasm_page0
      and y = "EngineError ''step''"
      and ?d1.0 = 0
      and ?d2.0 = 0
      and ?d3.0 = 0
      and ?v1.0 = stub_world] he hu
    by (simp add: Let_def)
  have f: "(step stub_generation_steps_throws (simulation page0) = (Inr (), 1) \<and> prev_generation_statistics stub_generation_steps_throws 1 = (Inr (Some \<lparr>max_fitness = 1, min_fitness = 0.2, mean_fitness = 0.5, std_fitness = 0.1\<rparr>), 1) \<and> world stub_generation_steps_throws 1 = (Inr stub_world, 1) \<and> generation stub_generation_steps_throws 1 = (Inr 3, 1) \<and> generation_steps stub_generation_steps_throws 1 = (Inl (EngineError ''generation_steps''), 1)
      \<and> fst (redraw stub_generation_steps_throws short_decimal page0) = Inl (EngineError ''generation_steps'')
      \<and> last (new_events page0 (snd (redraw stub_generation_steps_throws short_decimal page0))) = Ev_generation_steps
      \<and> controllerText (snd (redraw stub_generation_steps_throws short_decimal page0)) = controllerText page0
      \<and> frames_requested (snd (redraw stub_generation_steps_throws short_decimal page0)) = frames_requested page0 + 1)"
    using engine_failure [where sim = stub_generation_steps_throws
      and fmt = short_decimal
      and s = page0
      and x = "EngineError ''generation_steps''"
      and ?e1.0 = 1
      and ?e2.0 = 1
      and ?e3.0 = 1
      and ?e4.0 = 1
      and ?e5.0 = 1
      and ?e6.0 = 1
      and st = "Some \<lparr>max_fitness = 1, min_fitness = 0.2, mean_fitness = 0.5, std_fitness = 0.1\<rparr>"
      and ?w1.0 = stub_world
      and ?w2.0 = stub_world
      and g = 3
      and sim' = stub_step_throws
      and t = wasm_page0
      and y = "EngineError ''step''"
      and ?d1.0 = 0
      and ?d2.0 = 0
      and ?d3.0 = 0
      and ?v1.0 = stub_world] hf hu
    by (simp add: Let_def)
  have u: "(step stub_step_throws (simulation wasm_page0) = (Inl (EngineError ''step''), 0)
      \<and> fst (wasm_redraw stub_step_throws wasm_page0) = Inl (EngineError ''step'')
      \<and> last (new_events wasm_page0 (snd (wasm_redraw stub_step_throws wasm_page0))) = Ev_step
      \<and> frames_requested (snd (wasm_redraw stub_step_throws wasm_page0)) = frames_requested wasm_page0)"
    using engine_failure [where sim = stub_step_throws
      and fmt = short_decimal
      and s = page0
      and x = "EngineError ''step''"
      and ?e1.0 = 0
      and ?e2.0 = 0
      and ?e3.0 = 0
      and ?e4.0 = 0
      and ?e5.0 = 0
      and ?e6.0 = 0
      and st = "None"
      and ?w1.0 = stub_world
      and ?w2.0 = stub_world
      and g = 0
      and sim' = stub_step_throws
      and t = wasm_page0
      and y = "EngineError ''step''"
      and ?d1.0 = 0
      and ?d2.0 = 0
      and ?d3.0 = 0
      and ?v1.0 = stub_world] ha hu
    by (simp add: Let_def)
  have v: "(step stub_world_throws (simulation wasm_page0) = (Inr (), 1) \<and> world stub_world_throws 1 = (Inl (EngineError ''world''), 1)
      \<and> fst (wasm_redraw stub_world_throws wasm_page0) = Inl (EngineError ''world'')
      \<and> last (new_events wasm_page0 (snd (wasm_redraw stub_world_throws wasm_page0))) = Ev_world
      \<and> frames_requested (snd (wasm_redraw stub_world_throws wasm_page0)) = frames_requested wasm_page0)"
    using engine_failure [where sim = stub_statistics_throws
      and fmt = short_decimal
      and s = page0
      and x = "EngineError ''statistics''"
      and ?e1.0 = 1
      and ?e2.0 = 1
      and ?e3.0 = 0
      and ?e4.0 = 0
      and ?e5.0 = 0
      and ?e6.0 = 0
      and st = "None"
      and ?w1.0 = stub_world
      and ?w2.0 = stub_world
      and g = 0
      and sim' = stub_world_throws
      and t = wasm_page0
      and y = "EngineError ''world''"
      and ?d1.0 = 1
      and ?d2.0 = 1
      and ?d3.0 = 0
      and ?v1.0 = stub_world] hb hv
    by (simp add: Let_def)
  have w: "(step stub_second_world_throws (simulation wasm_page0) = (Inr (), 1) \<and> world stub_second_world_throws 1 = (Inr stub_world, 2) \<and> world stub_second_world_throws 2 = (Inl (EngineError ''world''), 2)
      \<and> fst (wasm_redraw stub_second_world_throws wasm_page0) = Inl (EngineError ''world'')
      \<and> last (new_events wasm_page0 (snd (wasm_redraw stub_second_world_throws wasm_page0))) = Ev_world
      \<and> frames_requested (snd (wasm_redraw stub_second_world_throws wasm_page0)) = frames_requested wasm_page0)"
    using engine_failure [where sim = stub_world_throws
      and fmt = short_decimal
      and s = page0
      and x = "EngineError ''world''"
      and ?e1.0 = 1
      and ?e2.0 = 1
      and ?e3.0 = 1
      and ?e4.0 = 0
      and ?e5.0 = 0
      and ?e6.0 = 0
      and st = "Some \<lparr>max_fitness = 1, min_fitness = 0.2, mean_fitness = 0.5, std_fitness = 0.1\<rparr>"
      and ?w1.0 = stub_world
      and ?w2.0 = stub_world
      and g = 0
      and sim' = stub_second_world_throws
      and t = wasm_page0
      and y = "EngineError ''world''"
      and ?d1.0 = 1
      and ?d2.0 = 2
      and ?d3.0 = 2
      and ?v1.0 = stub_world] hc hw
    by (simp add: Let_def)
  from a b c d e f u v w show ?thesis
    by blast
qed

text \<open>
  C6, as stated, fails: when \<open>generation\<close> throws, the cycle of \<open>part_000\<close> has already
  reached the scheduling call.
\<close>

theorem engine_failure_counterexample:
  "fst (redraw stub_generation_throws short_decimal page0) = Inl (EngineError ''generation'')
   \<and> frames_requested (snd (redraw stub_generation_throws short_decimal page0)) =
       frames_requested page0 + 1
   \<and> list_ex is_requestAnimationFrame
       (new_events page0 (snd (redraw stub_generation_throws short_decimal page0)))"
proof -
  from stub_generation_throws_redraw [of short_decimal] obtain c where
    "redraw stub_generation_throws short_decimal page0 =
     (Inl (EngineError ''generation''), mid_cycle page0 1 1
        [Ev_reset, Ev_clearRect 0 0 800 800, Ev_step, Ev_prev_generation_statistics, Ev_world,
         Ev_fillAnimal 400 200 0, Ev_fillAnimal 1200 (- 200) pi, Ev_world, Ev_fillFood 600 1600,
         Ev_requestAnimationFrame, Ev_generation] c)"
    by blast
  then show ?thesis
    by simp
qed

text \<open>
  C7. When the calls of a cycle of \<open>part_000\<close> return, the text surface holds exactly
  the lines \<open>Generation\<close>, \<open>Generation steps\<close>, an empty line, \<open>Prev generation stats\<close>
  and the four fitness lines \<open>Max\<close>, \<open>Min\<close>, \<open>Mean\<close>, \<open>Std\<close>, in this order, every line
  feed written as \<open><br>\<close>. The counters print as their decimal digits. Without
  statistics each fitness line holds the word \<open>null\<close>; with statistics it holds the
  printed value. Nothing of the previous content is left.
\<close>

theorem stats_text_shown:
  "step sim (simulation s) = (Inr (), e1) \<and> prev_generation_statistics sim e1 = (Inr st, e2)
     \<and> world sim e2 = (Inr w1, e3) \<and> world sim e3 = (Inr w2, e4)
     \<and> generation sim e4 = (Inr g, e5) \<and> generation_steps sim e5 = (Inr gs, e6) \<longrightarrow>
   fst (redraw sim fmt s) = Inr ()
   \<and> controllerText (snd (redraw sim fmt s)) =
       ''Generation: '' @ show_nat g @ ''<br>'' @
       ''Generation steps: '' @ show_nat gs @ ''<br><br>'' @
       ''Prev generation stats:<br>'' @
       (case st of
          None \<Rightarrow>
            ''Max fitness: null<br>Min fitness: null<br>Mean fitness: null<br>Std fitness: null<br>''
        | Some v \<Rightarrow>
            ''Max fitness: '' @ replace_newlines (Number_toString fmt (max_fitness v)) @ ''<br>'' @
            ''Min fitness: '' @ replace_newlines (Number_toString fmt (min_fitness v)) @ ''<br>'' @
            ''Mean fitness: '' @ replace_newlines (Number_toString fmt (mean_fitness v)) @ ''<br>'' @
            ''Std fitness: '' @ replace_newlines (Number_toString fmt (std_fitness v)) @ ''<br>'')"
proof (intro impI, elim conjE)
  assume calls: "step sim (simulation s) = (Inr (), e1)"
    "prev_generation_statistics sim e1 = (Inr st, e2)"
    "world sim e2 = (Inr w1, e3)" "world sim e3 = (Inr w2, e4)"
    "generation sim e4 = (Inr g, e5)" "generation_steps sim e5 = (Inr gs, e6)"
  from redraw_text(1,2) [OF calls, of fmt] show "fst (redraw sim fmt s) = Inr ()
   \<and> controllerText (snd (redraw sim fmt s)) =
       ''Generation: '' @ show_nat g @ ''<br>'' @
       ''Generation steps: '' @ show_nat gs @ ''<br><br>'' @
       ''Prev generation stats:<br>'' @
       (case st of
          None \<Rightarrow>
            ''Max fitness: null<br>Min fitness: null<br>Mean fitness: null<br>Std fitness: null<br>''
        | Some v \<Rightarrow>
            ''Max fitness: '' @ replace_newlines (Number_toString fmt (max_fitness v)) @ ''<br>'' @
            ''Min fitness: '' @ replace_newlines (Number_toString fmt (min_fitness v)) @ ''<br>'' @
            ''Mean fitness: '' @ replace_newlines (Number_toString fmt (mean_fitness v)) @ ''<br>'' @
            ''Std fitness: '' @ replace_newlines (Number_toString fmt (std_fitness v)) @ ''<br>'')"
    by (simp only: replace_newlines_stats_text simp_thms)
qed

theorem stats_text_shown_witness:
  "step stub (simulation page0) = (Inr (), 1)
   \<and> generation stub 1 = (Inr 3, 1) \<and> generation_steps stub 1 = (Inr 40, 1)
   \<and> prev_generation_statistics stub_no_statistics 1 = (Inr None, 1)
   \<and> controllerText (snd (redraw stub short_decimal page0)) =
       ''Generation: 3<br>Generation steps: 40<br><br>Prev generation stats:<br>Max fitness: 1<br>Min fitness: 0.2<br>Mean fitness: 0.5<br>Std fitness: 0.1<br>''
   \<and> controllerText (snd (redraw stub_no_statistics short_decimal page0)) =
       ''Generation: 3<br>Generation steps: 40<br><br>Prev generation stats:<br>Max fitness: null<br>Min fitness: null<br>Mean fitness: null<br>Std fitness: null<br>''"
  using stats_text_shown [where sim = stub and s = page0 and fmt = short_decimal and ?e1.0 = 1
      and ?e2.0 = 1 and ?e3.0 = 1 and ?e4.0 = 1 and ?e5.0 = 1 and ?e6.0 = 1 and g = 3 and gs = 40
      and ?w1.0 = stub_world and ?w2.0 = stub_world
      and st = "Some \<lparr>max_fitness = 1, min_fitness = 0.2, mean_fitness = 0.5, std_fitness = 0.1\<rparr>"]
    stats_text_shown [where sim = stub_no_statistics and s = page0 and fmt = short_decimal
      and ?e1.0 = 1 and ?e2.0 = 1 and ?e3.0 = 1 and ?e4.0 = 1 and ?e5.0 = 1 and ?e6.0 = 1
      and g = 3 and gs = 40 and ?w1.0 = stub_world and ?w2.0 = stub_world and st = None]
  by (simp add: stub_calls stub_no_statistics_calls page0_def show_small short_decimal_prints)




text \<open>
  C10. When the two \<open>world\<close> queries at the top of \<open>wasm_app/index.js\<close> return \<open>w1\<close>
  (on the engine as constructed, before any step) and \<open>w2\<close>, the script first draws
  every animal of \<open>w1\<close> and every food item of \<open>w2\<close>, once each, scaled by the width and
  the height the canvas has after the sizing lines, and only then makes the first
  \<open>clearRect\<close> and the first \<open>step\<close>, those of the first frame cycle.
\<close>

theorem startup_draw:
  "world sim (simulation t) = (Inr w1, e1) \<and> world sim e1 = (Inr w2, e2) \<longrightarrow>
     (let W = width (viewport (size_viewport t));
          H = height (viewport (size_viewport t))
      in \<exists>rest later.
           new_events t (snd (wasm_main sim t)) =
             [Ev_world] @
             map (\<lambda>a. Ev_fillAnimal (animal_x a * W) (animal_y a * H) (animal_rotation a))
               (animals w1) @
             [Ev_world] @
             map (\<lambda>f. Ev_fillFood (food_x f * W) (food_y f * H)) (food w2) @
             [Ev_clearRect 0 0 W H, Ev_step] @ rest
         \<and> surface (ctx2d (viewport (snd (wasm_main sim t)))) =
             map (animal_paint ANIMAL_SIZE ANIMAL_COLOR W H) (animals w1) @
             map (food_paint FOOD_SIZE FOOD_COLOR W H) (food w2) @
             [ClearRect 0 0 W H] @ later)"
proof (intro impI, elim conjE)
  assume "world sim (simulation t) = (Inr w1, e1)" "world sim e1 = (Inr w2, e2)"
  from wasm_main_run [OF this] show "let W = width (viewport (size_viewport t));
          H = height (viewport (size_viewport t))
      in \<exists>rest later.
           new_events t (snd (wasm_main sim t)) =
             [Ev_world] @
             map (\<lambda>a. Ev_fillAnimal (animal_x a * W) (animal_y a * H) (animal_rotation a))
               (animals w1) @
             [Ev_world] @
             map (\<lambda>f. Ev_fillFood (food_x f * W) (food_y f * H)) (food w2) @
             [Ev_clearRect 0 0 W H, Ev_step] @ rest
         \<and> surface (ctx2d (viewport (snd (wasm_main sim t)))) =
             map (animal_paint ANIMAL_SIZE ANIMAL_COLOR W H) (animals w1) @
             map (food_paint FOOD_SIZE FOOD_COLOR W H) (food w2) @
             [ClearRect 0 0 W H] @ later"
    unfolding Let_def animal_event_def [abs_def] food_event_def [abs_def] .
qed

theorem startup_draw_witness:
  "world stub (simulation wasm_page0) = (Inr stub_world, 0)
   \<and> (\<exists>rest. new_events wasm_page0 (snd (wasm_main stub wasm_page0)) =
        [Ev_world, Ev_fillAnimal 400 150 0, Ev_fillAnimal 1200 (- 150) pi,
         Ev_world, Ev_fillFood 600 1200, Ev_clearRect 0 0 800 600, Ev_step] @ rest)
   \<and> world stub (simulation wasm_page_fraction) = (Inr stub_world, 0)
   \<and> (\<exists>rest. new_events wasm_page_fraction (snd (wasm_main stub wasm_page_fraction)) =
        [Ev_world, Ev_fillAnimal 300.5 112.75 0, Ev_fillAnimal 901.5 (- 112.75) pi,
         Ev_world, Ev_fillFood 450.75 902, Ev_clearRect 0 0 601 451, Ev_step] @ rest)"
proof -
  from startup_draw [where sim = stub and t = wasm_page0 and ?w1.0 = stub_world and ?e1.0 = 0
      and ?w2.0 = stub_world and ?e2.0 = 0]
  have one: "\<exists>rest. new_events wasm_page0 (snd (wasm_main stub wasm_page0)) =
        [Ev_world, Ev_fillAnimal 400 150 0, Ev_fillAnimal 1200 (- 150) pi,
         Ev_world, Ev_fillFood 600 1200, Ev_clearRect 0 0 800 600, Ev_step] @ rest"
    by (simp add: stub_calls Let_def wasm_fixtures_sized wasm_fixtures_engine stub_world_def)
  from startup_draw [where sim = stub and t = wasm_page_fraction and ?w1.0 = stub_world
      and ?e1.0 = 0 and ?w2.0 = stub_world and ?e2.0 = 0]
  have two: "\<exists>rest. new_events wasm_page_fraction (snd (wasm_main stub wasm_page_fraction)) =
        [Ev_world, Ev_fillAnimal 300.5 112.75 0, Ev_fillAnimal 901.5 (- 112.75) pi,
         Ev_world, Ev_fillFood 450.75 902, Ev_clearRect 0 0 601 451, Ev_step] @ rest"
    by (simp add: stub_calls Let_def wasm_fixtures_sized wasm_fixtures_engine stub_world_def)
  from one two show ?thesis
    by (simp add: stub_calls wasm_fixtures_engine)
qed

end
